theory Spec2Isabelle
  imports Complex_Main "HOL-Library.Sublist" "HOL-Library.AList"
begin

section \<open>JavaScript numbers\<close>

text \<open>
  A JavaScript number is an IEEE 754 double. The model keeps the three special values
  apart and represents a finite double by its exact rational value; the negative zero is
  identified with zero. The operators \<open>+\<close>, \<open>*\<close> and \<open>/\<close> yield the double nearest to the
  exact result, the one with the even significand at a tie, and an infinity when that is
  out of range. Comparisons follow the language: every ordering test against \<open>NaN\<close> is
  false.
\<close>

datatype jsnum = NaN | NegInf | Fin rat | PosInf

text \<open>
  The position of the leading bit of a positive natural number, and the binade of a
  positive rational \<open>a\<close>: the exponent \<open>e\<close> with \<open>2^e <= a < 2^(e+1)\<close>.
\<close>

fun log2floor :: "nat \<Rightarrow> nat" where
  "log2floor n = (if n < 2 then 0 else Suc (log2floor (n div 2)))"

declare log2floor.simps [simp del]

definition exponentOf :: "rat \<Rightarrow> int" where
  "exponentOf a =
     (if 1 \<le> a then int (log2floor (nat \<lfloor>a\<rfloor>))
      else - 1 - int (log2floor (nat (\<lceil>1 / a\<rceil> - 1))))"

text \<open>The nearest integer, the even one at a tie.\<close>

definition roundHalfEven :: "rat \<Rightarrow> int" where
  "roundHalfEven x =
     (let f = \<lfloor>x\<rfloor>; r = x - of_int f in
      if r < 1 / 2 then f else if 1 / 2 < r then f + 1 else if even f then f else f + 1)"

text \<open>
  A double has a significand of 53 bits: in the binade \<open>e\<close> the doubles are the multiples
  of \<open>2^(e-52)\<close>, and below \<open>2^-1022\<close> the spacing stays \<open>2^-1074\<close> (the subnormal numbers).
  \<open>roundMagnitude a\<close> is the multiple nearest to a positive \<open>a\<close>. The largest double is
  \<open>2^1024 - 2^971\<close>; a magnitude that rounds to \<open>2^1024\<close> or more becomes an infinity.
\<close>

definition doubleLimit :: rat where
  "doubleLimit = 2 ^ 1024"

definition roundMagnitude :: "rat \<Rightarrow> rat" where
  "roundMagnitude a =
     (let e = max (- 1022) (exponentOf a);
          u = 2 powi (e - 52)
      in of_int (roundHalfEven (a / u)) * u)"

definition roundDouble :: "rat \<Rightarrow> jsnum" where
  "roundDouble q =
     (if q = 0 then Fin 0
      else
        let m = roundMagnitude \<bar>q\<bar> in
        if doubleLimit \<le> m then (if q < 0 then NegInf else PosInf)
        else Fin (if q < 0 then - m else m))"

text \<open>\<open>a + b\<close>, \<open>- a\<close> and \<open>a - b\<close>.\<close>

fun js_add :: "jsnum \<Rightarrow> jsnum \<Rightarrow> jsnum" where
  "js_add NaN _ = NaN"
| "js_add _ NaN = NaN"
| "js_add PosInf NegInf = NaN"
| "js_add NegInf PosInf = NaN"
| "js_add PosInf _ = PosInf"
| "js_add _ PosInf = PosInf"
| "js_add NegInf _ = NegInf"
| "js_add _ NegInf = NegInf"
| "js_add (Fin a) (Fin b) = roundDouble (a + b)"

fun js_neg :: "jsnum \<Rightarrow> jsnum" where
  "js_neg NaN = NaN"
| "js_neg NegInf = PosInf"
| "js_neg PosInf = NegInf"
| "js_neg (Fin a) = Fin (- a)"

definition js_sub :: "jsnum \<Rightarrow> jsnum \<Rightarrow> jsnum" where
  "js_sub a b = js_add a (js_neg b)"

text \<open>The sign of a number that is not \<open>NaN\<close>: \<open>-1\<close>, \<open>0\<close> or \<open>1\<close>.\<close>

fun js_sign :: "jsnum \<Rightarrow> int" where
  "js_sign NaN = 0"
| "js_sign NegInf = - 1"
| "js_sign PosInf = 1"
| "js_sign (Fin a) = (if a < 0 then - 1 else if a = 0 then 0 else 1)"

definition inf_of_sign :: "int \<Rightarrow> jsnum" where
  "inf_of_sign s = (if s = 0 then NaN else if s < 0 then NegInf else PosInf)"

text \<open>\<open>a * b\<close>; an infinity times zero is \<open>NaN\<close>.\<close>

fun js_mul :: "jsnum \<Rightarrow> jsnum \<Rightarrow> jsnum" where
  "js_mul NaN _ = NaN"
| "js_mul _ NaN = NaN"
| "js_mul (Fin a) (Fin b) = roundDouble (a * b)"
| "js_mul a b = inf_of_sign (js_sign a * js_sign b)"

text \<open>
  \<open>a / b\<close>. A finite nonzero value divided by zero is an infinity whose sign would depend
  on the sign of the zero; with one zero only, the model takes the positive one. The
  detector divides only by a value that is not \<open>=== 0\<close>.
\<close>

fun js_div :: "jsnum \<Rightarrow> jsnum \<Rightarrow> jsnum" where
  "js_div NaN _ = NaN"
| "js_div _ NaN = NaN"
| "js_div (Fin a) (Fin b) = (if b = 0 then inf_of_sign (js_sign (Fin a)) else roundDouble (a / b))"
| "js_div (Fin a) _ = Fin 0"
| "js_div a (Fin b) = inf_of_sign (js_sign a * (if b < 0 then - 1 else 1))"
| "js_div _ _ = NaN"

text \<open>\<open>a < b\<close>, \<open>a > b\<close>, \<open>a <= b\<close>, \<open>a >= b\<close> and \<open>a === b\<close> on numbers.\<close>

fun js_lt :: "jsnum \<Rightarrow> jsnum \<Rightarrow> bool" where
  "js_lt NaN _ = False"
| "js_lt _ NaN = False"
| "js_lt (Fin a) (Fin b) = (a < b)"
| "js_lt NegInf NegInf = False"
| "js_lt NegInf _ = True"
| "js_lt PosInf _ = False"
| "js_lt _ PosInf = True"
| "js_lt _ NegInf = False"

definition js_gt :: "jsnum \<Rightarrow> jsnum \<Rightarrow> bool" where
  "js_gt a b = js_lt b a"

definition js_eq :: "jsnum \<Rightarrow> jsnum \<Rightarrow> bool" where
  "js_eq a b = (a \<noteq> NaN \<and> a = b)"

definition js_le :: "jsnum \<Rightarrow> jsnum \<Rightarrow> bool" where
  "js_le a b = (js_lt a b \<or> js_eq a b)"

definition js_ge :: "jsnum \<Rightarrow> jsnum \<Rightarrow> bool" where
  "js_ge a b = js_le b a"

text \<open>
  An integer-valued number, such as a reading of \<open>Date.now()\<close>. A time value is an integer
  of magnitude at most \<open>8.64e15\<close>, which is below \<open>2^53\<close>: it is a double, and so is the
  difference \<open>Date.now() - 60000\<close>.
\<close>

definition num_of_int :: "int \<Rightarrow> jsnum" where
  "num_of_int i = Fin (of_int i)"

section \<open>The detector's data\<close>

text \<open>
  The object literal that \<open>scanGlobalMarket\<close> passes to \<open>addTrade\<close>. The two numbers may
  be \<open>NaN\<close>; the other fields are text. \<open>marketId\<close> is held as the property key it becomes
  when \<open>checkSignals\<close> uses it to index an object.
\<close>

record trade =
  timestamp :: jsnum
  amountUSD :: jsnum
  user :: string
  marketId :: string
  marketName :: string
  marketSlug :: string
  outcome :: string
  side :: string

text \<open>
  \<open>class MarketDetector\<close>: the window of recent trades and the map from a market
  identifier to the clock reading of its last alert. The map is read at the keys of
  \<open>groups\<close> only, which are never names inherited from \<open>Object.prototype\<close>.
\<close>

record detector =
  tradeWindow :: "trade list"
  alertCooldowns :: "string \<rightharpoonup> int"

definition constructor :: detector where
  "constructor = \<lparr>tradeWindow = [], alertCooldowns = Map.empty\<rparr>"

text \<open>
  \<open>addTrade(trade)\<close>: push, then keep the trades with \<open>t.timestamp > cutoff\<close>, where
  \<open>cutoff = Date.now() - 60000\<close>. The clock reading \<open>now\<close> is an argument.
\<close>

definition addTrade :: "int \<Rightarrow> trade \<Rightarrow> detector \<Rightarrow> detector" where
  "addTrade now t d =
     (let pushed = tradeWindow d @ [t];
          cutoff = now - 60000
      in d\<lparr>tradeWindow := filter (\<lambda>t. js_gt (timestamp t) (num_of_int cutoff)) pushed\<rparr>)"

section \<open>Grouping the window by market\<close>

text \<open>
  One entry of the local object \<open>groups\<close>: the buys, the sells and the trade that opened
  the group.
\<close>

record group =
  buys :: "trade list"
  sells :: "trade list"
  meta :: trade

datatype error = TypeError

text \<open>
  \<open>groups\<close> is created by \<open>{}\<close>, so it inherits the properties of \<open>Object.prototype\<close>.
  For such a key \<open>groups[key]\<close> is an inherited function or object, which is truthy: no
  group is created, \<open>groups[key].buys\<close> and \<open>groups[key].sells\<close> are \<open>undefined\<close>, and the
  call of \<open>push\<close> raises a \<open>TypeError\<close>.
\<close>

definition objectPrototypeKeys :: "string list" where
  "objectPrototypeKeys =
     [''constructor'', ''__defineGetter__'', ''__defineSetter__'', ''hasOwnProperty'',
      ''__lookupGetter__'', ''__lookupSetter__'', ''isPrototypeOf'', ''propertyIsEnumerable'',
      ''toString'', ''valueOf'', ''__proto__'', ''toLocaleString'']"

text \<open>
  An object with string keys is an association list in insertion order; the keys are
  distinct. \<open>Object.entries\<close> below yields the order of enumeration.
\<close>

type_synonym 'v jsobject = "(string \<times> 'v) list"

definition pushTrade :: "trade \<Rightarrow> group \<Rightarrow> group" where
  "pushTrade t g =
     (if side t = ''Buy'' then g\<lparr>buys := buys g @ [t]\<rparr> else g\<lparr>sells := sells g @ [t]\<rparr>)"

text \<open>The body of \<open>this.tradeWindow.forEach(t => ...)\<close>.\<close>

definition groupStep :: "group jsobject \<Rightarrow> trade \<Rightarrow> error + group jsobject" where
  "groupStep groups t =
     (let k = marketId t in
      if k \<in> set objectPrototypeKeys then Inl TypeError
      else
        let groups1 =
              (if map_of groups k = None
               then groups @ [(k, \<lparr>buys = [], sells = [], meta = t\<rparr>)]
               else groups)
        in Inr (AList.map_entry k (pushTrade t) groups1))"

fun groupTrades :: "group jsobject \<Rightarrow> trade list \<Rightarrow> error + group jsobject" where
  "groupTrades groups [] = Inr groups"
| "groupTrades groups (t # ts) =
     (case groupStep groups t of
        Inl e \<Rightarrow> Inl e
      | Inr groups' \<Rightarrow> groupTrades groups' ts)"

text \<open>
  \<open>Object.entries\<close>: the keys that are array indices (canonical decimal numerals up to
  \<open>2^32 - 2\<close>) come first, in ascending numeric order, then the other keys in insertion
  order.
\<close>

definition isDigit :: "char \<Rightarrow> bool" where
  "isDigit c = (48 \<le> (of_char c :: nat) \<and> (of_char c :: nat) \<le> 57)"

definition digitValue :: "char \<Rightarrow> nat" where
  "digitValue c = (of_char c :: nat) - 48"

definition decimalValue :: "string \<Rightarrow> nat" where
  "decimalValue s = foldl (\<lambda>n c. 10 * n + digitValue c) 0 s"

definition isArrayIndex :: "string \<Rightarrow> bool" where
  "isArrayIndex s =
     (s \<noteq> [] \<and> list_all isDigit s \<and> (s = ''0'' \<or> hd s \<noteq> CHR ''0'')
      \<and> decimalValue s < 4294967295)"

definition objectEntries :: "'v jsobject \<Rightarrow> (string \<times> 'v) list" where
  "objectEntries obj =
     sort_key (\<lambda>e. decimalValue (fst e)) (filter (\<lambda>e. isArrayIndex (fst e)) obj)
     @ filter (\<lambda>e. \<not> isArrayIndex (fst e)) obj"

section \<open>The signal rules\<close>

text \<open>The object pushed onto \<open>signals\<close>; its fields \<open>type\<close>, \<open>marketName\<close>, \<open>outcome\<close> and
  \<open>marketId\<close> carry the prefix \<open>sig_\<close> here.\<close>

record signal =
  sig_type :: string
  sig_marketName :: string
  sig_outcome :: string
  totalVol :: jsnum
  uniqueWallets :: nat
  ratio :: jsnum
  sig_marketId :: string

text \<open>\<open>ts.reduce((sum, t) => sum + t.amountUSD, 0)\<close>.\<close>

definition sumUSD :: "trade list \<Rightarrow> jsnum" where
  "sumUSD ts = foldl (\<lambda>sum t. js_add sum (amountUSD t)) (Fin 0) ts"

text \<open>
  The cooldown test \<open>this.alertCooldowns[marketId] && (now - this.alertCooldowns[marketId] <
  300000)\<close>. A missing entry is \<open>undefined\<close> and a stamp \<open>0\<close> is falsy.
\<close>

definition coolingDown :: "int \<Rightarrow> (string \<rightharpoonup> int) \<Rightarrow> string \<Rightarrow> bool" where
  "coolingDown now cooldowns k =
     (case cooldowns k of
        None \<Rightarrow> False
      | Some c \<Rightarrow> c \<noteq> 0 \<and> now - c < 300000)"

definition ratioOf :: "jsnum \<Rightarrow> jsnum \<Rightarrow> jsnum" where
  "ratioOf buyVol sellVol = (if js_eq sellVol (Fin 0) then buyVol else js_div buyVol sellVol)"

definition ratioSkip :: "jsnum \<Rightarrow> jsnum \<Rightarrow> bool" where
  "ratioSkip sellVol r = (js_gt sellVol (Fin 0) \<and> js_lt r (Fin 3))"

definition alertTypeOf :: "nat \<Rightarrow> jsnum \<Rightarrow> string option" where
  "alertTypeOf uniqueBuyers buyVol =
     (if uniqueBuyers \<ge> 3 \<and> js_gt buyVol (Fin 10000) then Some ''WOLF_PACK''
      else if js_gt buyVol (Fin 15000) then Some ''VOLUME_SURGE''
      else None)"

text \<open>
  The body of \<open>for (const [marketId, data] of Object.entries(groups))\<close>: \<open>None\<close> when the
  iteration ends by \<open>continue\<close> or with \<open>alertType\<close> still \<open>null\<close>, the signal otherwise.
\<close>

definition analyzeMarket :: "int \<Rightarrow> (string \<rightharpoonup> int) \<Rightarrow> string \<times> group \<Rightarrow> signal option" where
  "analyzeMarket now cooldowns e =
     (let marketId = fst e; data = snd e in
      if coolingDown now cooldowns marketId then None
      else
        let buyVol = sumUSD (buys data);
            sellVol = sumUSD (sells data);
            r = ratioOf buyVol sellVol
        in if ratioSkip sellVol r then None
           else
             let uniqueBuyers = card (set (map user (buys data))) in
             case alertTypeOf uniqueBuyers buyVol of
               None \<Rightarrow> None
             | Some alertType \<Rightarrow>
                 Some \<lparr>sig_type = alertType,
                       sig_marketName = marketName (meta data),
                       sig_outcome = outcome (meta data),
                       totalVol = buyVol,
                       uniqueWallets = uniqueBuyers,
                       ratio = r,
                       sig_marketId = marketId\<rparr>)"

text \<open>The loop: a signal stamps \<open>this.alertCooldowns[marketId] = now\<close> and is pushed.\<close>

fun analyzeAll ::
  "int \<Rightarrow> (string \<times> group) list \<Rightarrow> (string \<rightharpoonup> int) \<Rightarrow> signal list
   \<Rightarrow> (string \<rightharpoonup> int) \<times> signal list" where
  "analyzeAll now [] cooldowns signals = (cooldowns, signals)"
| "analyzeAll now (e # es) cooldowns signals =
     (case analyzeMarket now cooldowns e of
        None \<Rightarrow> analyzeAll now es cooldowns signals
      | Some s \<Rightarrow> analyzeAll now es (cooldowns(fst e \<mapsto> now)) (signals @ [s]))"

text \<open>
  \<open>checkSignals()\<close> with the clock reading as an argument. It returns the signals and the
  detector with its cooldowns stamped, or the \<open>TypeError\<close> of the grouping, raised before
  any cooldown is written.
\<close>

definition checkSignals :: "int \<Rightarrow> detector \<Rightarrow> error + (signal list \<times> detector)" where
  "checkSignals now d =
     (case groupTrades [] (tradeWindow d) of
        Inl e \<Rightarrow> Inl e
      | Inr groups \<Rightarrow>
          (case analyzeAll now (objectEntries groups) (alertCooldowns d) [] of
             (cooldowns, signals) \<Rightarrow> Inr (signals, d\<lparr>alertCooldowns := cooldowns\<rparr>)))"

section \<open>Sequences of calls\<close>

text \<open>
  The detector is driven by \<open>scanGlobalMarket\<close>, which calls \<open>addTrade\<close> for the trades
  it fetched and then \<open>checkSignals\<close>; each call reads the clock once. A \<open>TypeError\<close> of
  \<open>checkSignals\<close> is caught by the \<open>try\<close> of \<open>scanGlobalMarket\<close>: no signal is
  delivered and the detector is as it was.
\<close>

datatype call = AddTrade int trade | CheckSignals int

fun step :: "call \<Rightarrow> detector \<Rightarrow> signal list \<times> detector" where
  "step (AddTrade now t) d = ([], addTrade now t d)"
| "step (CheckSignals now) d =
     (case checkSignals now d of
        Inl e \<Rightarrow> ([], d)
      | Inr (signals, d') \<Rightarrow> (signals, d'))"

fun run :: "call list \<Rightarrow> detector \<Rightarrow> signal list \<times> detector" where
  "run [] d = ([], d)"
| "run (c # cs) d =
     (case step c d of
        (signals, d') \<Rightarrow> (case run cs d' of (later, d'') \<Rightarrow> (signals @ later, d'')))"

section \<open>Values from upstream and the built-in conversions\<close>

text \<open>
  A field of an upstream JSON record that the code reads as a number: absent, \<open>null\<close>, a
  boolean, a number or a string. Arrays and objects in such a field are not modelled.
\<close>

datatype jsval = JUndefined | JNull | JBool bool | JNum jsnum | JStr string

text \<open>
  The scanning of a string by \<open>parseFloat\<close>, by \<open>ToNumber\<close> and by \<open>Date.parse\<close>, and the
  decimal rendering of a finite number by \<open>Number::toString\<close>, are algorithms of the
  language, not of this program: they are parameters of the model.
\<close>

record builtins =
  parseFloatStr :: "string \<Rightarrow> jsnum"
  toNumberStr :: "string \<Rightarrow> jsnum"
  dateParseStr :: "string \<Rightarrow> jsnum"
  numberToString :: "rat \<Rightarrow> string"

text \<open>
  \<open>parseFloat(v)\<close> scans \<open>ToString(v)\<close>. The strings \<open>undefined\<close>, \<open>null\<close>, \<open>true\<close> and
  \<open>false\<close> have no numeric prefix; the rendering of a number scans back to that number.
\<close>

fun parseFloat :: "builtins \<Rightarrow> jsval \<Rightarrow> jsnum" where
  "parseFloat B (JNum n) = n"
| "parseFloat B (JStr s) = parseFloatStr B s"
| "parseFloat B _ = NaN"

text \<open>\<open>ToNumber(v)\<close>, applied by the operator \<open>*\<close> to each operand.\<close>

fun toNumber :: "builtins \<Rightarrow> jsval \<Rightarrow> jsnum" where
  "toNumber B JUndefined = NaN"
| "toNumber B JNull = Fin 0"
| "toNumber B (JBool b) = Fin (if b then 1 else 0)"
| "toNumber B (JNum n) = n"
| "toNumber B (JStr s) = toNumberStr B s"

text \<open>Truthiness, as tested by \<open>||\<close>, \<open>&&\<close> and \<open>!\<close>.\<close>

fun truthy :: "jsval \<Rightarrow> bool" where
  "truthy JUndefined = False"
| "truthy JNull = False"
| "truthy (JBool b) = b"
| "truthy (JNum n) = (n \<noteq> NaN \<and> n \<noteq> Fin 0)"
| "truthy (JStr s) = (s \<noteq> [])"

definition js_or :: "jsval \<Rightarrow> jsval \<Rightarrow> jsval" where
  "js_or a b = (if truthy a then a else b)"

text \<open>
  \<open>TimeClip\<close>: a time value is an integer of magnitude at most \<open>8.64e15\<close>, or \<open>NaN\<close>.
\<close>

fun timeClip :: "jsnum \<Rightarrow> jsnum" where
  "timeClip (Fin q) =
     (if \<bar>q\<bar> > 8640000000000000 then NaN
      else Fin (of_int (if q < 0 then \<lceil>q\<rceil> else \<lfloor>q\<rfloor>)))"
| "timeClip _ = NaN"

text \<open>\<open>new Date(v).getTime()\<close> for one argument.\<close>

fun dateGetTime :: "builtins \<Rightarrow> jsval \<Rightarrow> jsnum" where
  "dateGetTime B (JStr s) = dateParseStr B s"
| "dateGetTime B v = timeClip (toNumber B v)"

section \<open>Rendering numbers\<close>

definition digitChar :: "nat \<Rightarrow> char" where
  "digitChar d = ''0123456789'' ! d"

fun digits :: "nat \<Rightarrow> string" where
  "digits n = (if n < 10 then [digitChar n] else digits (n div 10) @ [digitChar (n mod 10)])"

text \<open>The nearest integer to a rational that is not negative, the larger one at a tie.\<close>

definition roundHalfUp :: "rat \<Rightarrow> nat" where
  "roundHalfUp q = nat \<lfloor>q + 1 / 2\<rfloor>"

text \<open>
  \<open>x.toFixed(f)\<close>: a value that is not finite is rendered by \<open>Number::toString\<close>; the sign
  is split off; a magnitude of \<open>10^21\<close> or more is rendered by \<open>Number::toString\<close>; otherwise
  the digits of the nearest multiple of \<open>10^-f\<close>, padded with zeros to \<open>f + 1\<close> digits, with
  a point before the last \<open>f\<close>.
\<close>

definition fixedDigits :: "nat \<Rightarrow> nat \<Rightarrow> string" where
  "fixedDigits f n =
     (let m = digits n;
          m' = (if f \<noteq> 0 \<and> length m \<le> f then replicate (f + 1 - length m) (CHR ''0'') @ m else m)
      in if f = 0 then m'
         else take (length m' - f) m' @ ''.'' @ drop (length m' - f) m')"

fun toFixed :: "builtins \<Rightarrow> nat \<Rightarrow> jsnum \<Rightarrow> string" where
  "toFixed B f NaN = ''NaN''"
| "toFixed B f PosInf = ''Infinity''"
| "toFixed B f NegInf = ''-Infinity''"
| "toFixed B f (Fin q) =
     (if q < 0 then ''-'' else '''')
     @ (if \<bar>q\<bar> \<ge> 10 ^ 21 then numberToString B \<bar>q\<bar>
        else fixedDigits f (roundHalfUp (\<bar>q\<bar> * 10 ^ f)))"

text \<open>
  \<open>x.toLocaleString('en-US', { maximumFractionDigits: 0 })\<close>: the nearest integer, ties
  away from zero, its digits in groups of three counted from the right (\<open>groupRev\<close> works
  on the reversed digits) and separated by commas. The text is held as UTF-8 bytes; the
  infinity sign is three of them.
\<close>

fun groupRev :: "string \<Rightarrow> string" where
  "groupRev (a # b # c # d # ds) = a # b # c # CHR '','' # groupRev (d # ds)"
| "groupRev ds = ds"

definition grouped :: "nat \<Rightarrow> string" where
  "grouped n = rev (groupRev (rev (digits n)))"

definition infinitySign :: string where
  "infinitySign = [CHR 0xE2, CHR 0x88, CHR 0x9E]"

fun toLocaleString0 :: "jsnum \<Rightarrow> string" where
  "toLocaleString0 NaN = ''NaN''"
| "toLocaleString0 PosInf = infinitySign"
| "toLocaleString0 NegInf = ''-'' @ infinitySign"
| "toLocaleString0 (Fin q) = (if q < 0 then ''-'' else '''') @ grouped (roundHalfUp \<bar>q\<bar>)"

section \<open>The alert text\<close>

definition newline :: string where
  "newline = [CHR 0x0A]"

definition quote :: string where
  "quote = [CHR 0x22]"

text \<open>The three titles, each an emoji followed by bold text.\<close>

definition titleDefault :: string where
  "titleDefault = [CHR 0xE2, CHR 0x9A, CHR 0xA0, CHR 0xEF, CHR 0xB8, CHR 0x8F] @ '' <b>Market Alert</b>''"

definition titleWolfPack :: string where
  "titleWolfPack = [CHR 0xF0, CHR 0x9F, CHR 0x9A, CHR 0xA8] @ '' <b>Wolf Pack Cluster Detected</b>''"

definition titleVolumeSurge :: string where
  "titleVolumeSurge = [CHR 0xF0, CHR 0x9F, CHR 0x8C, CHR 0x8A] @ '' <b>High Volume Surge Detected</b>''"

text \<open>\<open>function formatAlert(alert)\<close>.\<close>

definition formatAlert :: "builtins \<Rightarrow> signal \<Rightarrow> string" where
  "formatAlert B alert =
     (let title0 = titleDefault;
          title1 = (if sig_type alert = ''WOLF_PACK'' then titleWolfPack else title0);
          title = (if sig_type alert = ''VOLUME_SURGE'' then titleVolumeSurge else title1);
          volStr = toLocaleString0 (totalVol alert);
          ratioStr = (if js_gt (ratio alert) (Fin 100) then ''MAX'' else toFixed B 1 (ratio alert))
      in title @ newline @ newline
         @ [CHR 0xF0, CHR 0x9F, CHR 0x8E, CHR 0xAF] @ '' <b>Market:</b> '' @ sig_marketName alert @ newline
         @ [CHR 0xF0, CHR 0x9F, CHR 0x93, CHR 0x88] @ '' <b>Outcome:</b> '' @ sig_outcome alert @ newline
         @ [CHR 0xF0, CHR 0x9F, CHR 0x92, CHR 0xB0] @ '' <b>Total Vol:</b> $'' @ volStr @ newline
         @ [CHR 0xF0, CHR 0x9F, CHR 0x91, CHR 0xA5] @ '' <b>Unique Wallets:</b> ''
           @ digits (uniqueWallets alert) @ newline
         @ [CHR 0xE2, CHR 0x9A, CHR 0x96, CHR 0xEF, CHR 0xB8, CHR 0x8F] @ '' <b>Buy Pressure:</b> ''
           @ ratioStr @ ''x'' @ newline
         @ [CHR 0xE2, CHR 0x8F, CHR 0xB1] @ '' <b>Time Window:</b> 60s'' @ newline @ newline
         @ ''<a href='' @ quote @ ''https://polymarket.com/market/'' @ sig_marketId alert @ quote
           @ ''>View Market</a>'')"

section \<open>Upstream records\<close>

text \<open>
  A record of the activity endpoint, with the fields that the program reads. A field read
  as text is a string or absent; \<open>size\<close>, \<open>price\<close> and \<open>timestamp\<close> may hold any scalar.
\<close>

record activity =
  act_id :: "string option"
  act_transactionHash :: "string option"
  act_type :: "string option"
  act_side :: "string option"
  act_size :: jsval
  act_price :: jsval
  act_outcome :: "string option"
  act_title :: "string option"
  act_slug :: "string option"
  act_timestamp :: jsval
  act_taker :: "string option"
  act_proxyWallet :: "string option"

text \<open>A market of the hot list: \<open>market.id\<close>, \<open>market.question\<close> and \<open>market.slug\<close>.\<close>

record market =
  market_id :: string
  question :: string
  slug :: string

text \<open>
  What a request yields: a rejection (network or HTTP error), a body that is \<open>null\<close>, or a
  list of elements. An element \<open>None\<close> is a \<open>null\<close> in the list.
\<close>

datatype 'a response = RequestFailed | DataNull | DataList "'a list"

text \<open>\<open>a || b\<close> and \<open>a || "text"\<close> on fields read as text, and \<open>${a}\<close> in a template.\<close>

definition truthyStr :: "string option \<Rightarrow> bool" where
  "truthyStr a = (case a of None \<Rightarrow> False | Some s \<Rightarrow> s \<noteq> [])"

definition orOpt :: "string option \<Rightarrow> string option \<Rightarrow> string option" where
  "orOpt a b = (if truthyStr a then a else b)"

definition orString :: "string option \<Rightarrow> string \<Rightarrow> string" where
  "orString a s = (if truthyStr a then the a else s)"

definition renderOpt :: "string option \<Rightarrow> string" where
  "renderOpt a = (case a of None \<Rightarrow> ''undefined'' | Some s \<Rightarrow> s)"

section \<open>Feeding the detector\<close>

text \<open>The object literal built in \<open>scanGlobalMarket\<close> for one upstream trade.\<close>

definition toTrade :: "builtins \<Rightarrow> market \<Rightarrow> activity \<Rightarrow> trade" where
  "toTrade B market t =
     \<lparr>timestamp = dateGetTime B (act_timestamp t),
      amountUSD = js_mul (parseFloat B (act_size t)) (parseFloat B (act_price t)),
      user = orString (orOpt (act_taker t) (act_proxyWallet t)) ''Unknown'',
      marketId = market_id market,
      marketName = question market,
      marketSlug = slug market,
      outcome = orString (act_outcome t) ''Yes/No'',
      side = ''Buy''\<rparr>"

text \<open>
  \<open>trades.forEach(t => { if (t.side === 'BUY') detector.addTrade(...) })\<close>. Each element
  comes with the clock reading at which it is handled. A \<open>null\<close> element raises a
  \<open>TypeError\<close> at \<open>t.side\<close>, which ends the loop; the \<open>try\<close> around it ignores the error.
\<close>

fun feedBrain :: "builtins \<Rightarrow> market \<Rightarrow> (int \<times> activity option) list \<Rightarrow> detector \<Rightarrow> detector" where
  "feedBrain B market [] d = d"
| "feedBrain B market ((now, None) # ts) d = d"
| "feedBrain B market ((now, Some t) # ts) d =
     feedBrain B market ts
       (if act_side t = Some ''BUY'' then addTrade now (toTrade B market t) d else d)"

text \<open>The body of \<open>markets.map(async (market) => ...)\<close> for one market and its response.\<close>

fun scanMarket ::
  "builtins \<Rightarrow> market \<times> (int \<times> activity option) response \<Rightarrow> detector \<Rightarrow> detector" where
  "scanMarket B (market, DataList ts) d = feedBrain B market ts d"
| "scanMarket B (market, _) d = d"

text \<open>
  What the program does to the outside: a message handed to the bot, an update of one
  wallet's \<open>lastHash\<close> handed to the database, a line on the error console.
\<close>

datatype event =
  SendMessage string string
| UpdateOne string string "string option"
| ConsoleError string

text \<open>
  \<open>scanGlobalMarket()\<close>. The responses of the markets are in the order in which they
  arrive; \<open>now\<close> is the clock reading of \<open>checkSignals\<close>; \<open>users\<close> are the chat identifiers of
  \<open>User.find({})\<close>. Every failure ends in the outer \<open>catch\<close>, which logs the label
  \<open>Global Scan Error:\<close> and the message of the error; the event keeps the label.
\<close>

definition scanGlobalMarket ::
  "builtins \<Rightarrow> (market \<times> (int \<times> activity option) response) response \<Rightarrow> int
   \<Rightarrow> string response \<Rightarrow> detector \<Rightarrow> event list \<times> detector" where
  "scanGlobalMarket B markets now users d =
     (case markets of
        DataList batches \<Rightarrow>
          (let d1 = fold (scanMarket B) batches d in
           case checkSignals now d1 of
             Inl e \<Rightarrow> ([ConsoleError ''Global Scan Error:''], d1)
           | Inr (signals, d2) \<Rightarrow>
               if signals = [] then ([], d2)
               else (case users of
                       DataList chatIds \<Rightarrow>
                         (concat (map (\<lambda>sig. map (\<lambda>u. SendMessage u (formatAlert B sig)) chatIds)
                                    signals), d2)
                     | _ \<Rightarrow> ([ConsoleError ''Global Scan Error:''], d2)))
      | _ \<Rightarrow> ([ConsoleError ''Global Scan Error:''], d))"

section \<open>The watchlist tracker\<close>

text \<open>An element of \<open>user.wallets\<close>; \<open>lastHash\<close> is \<open>null\<close> until the first sync.\<close>

record wallet =
  address :: string
  name :: string
  lastHash :: "string option"

text \<open>The alert text of \<open>scanSpecificWallets\<close>.\<close>

definition walletAmount :: "builtins \<Rightarrow> activity \<Rightarrow> jsnum" where
  "walletAmount B trade =
     parseFloat B (JNum (js_mul (toNumber B (js_or (act_size trade) (JNum (Fin 0))))
                                (toNumber B (js_or (act_price trade) (JNum (Fin 0))))))"

definition walletMessage :: "builtins \<Rightarrow> wallet \<Rightarrow> activity \<Rightarrow> string" where
  "walletMessage B w trade =
     (let amount = toFixed B 2 (walletAmount B trade) in
      [CHR 0xF0, CHR 0x9F, CHR 0x94, CHR 0x94] @ '' <b>'' @ name w @ '' Alert</b>'' @ newline
      @ ''Action: ''
        @ (if act_side trade = Some ''BUY''
           then [CHR 0xF0, CHR 0x9F, CHR 0x9F, CHR 0xA2] @ '' Buy''
           else [CHR 0xF0, CHR 0x9F, CHR 0x94, CHR 0xB4] @ '' Sell'') @ newline
      @ ''Asset: '' @ orString (act_outcome trade) ''Position'' @ newline
      @ ''Market: '' @ renderOpt (act_title trade) @ newline
      @ ''Value: $'' @ amount @ newline
      @ ''<a href='' @ quote @ ''https://polymarket.com/market/'' @ renderOpt (act_slug trade)
        @ quote @ ''>View Market</a>'')"

text \<open>
  The body of the \<open>try\<close> for one wallet, given the response of the activity request and
  whether the database accepts an update. It yields the events issued, the value assigned
  to \<open>updatesFound\<close> if any, and whether it ended by raising.
\<close>

record attempt =
  issued :: "event list"
  found :: bool
  raised :: bool

definition tryWallet ::
  "builtins \<Rightarrow> string \<Rightarrow> wallet \<Rightarrow> activity option response \<Rightarrow> bool \<Rightarrow> attempt" where
  "tryWallet B chatId w res dbOk =
     (case res of
        RequestFailed \<Rightarrow> \<lparr>issued = [], found = False, raised = True\<rparr>
      | DataNull \<Rightarrow> \<lparr>issued = [], found = False, raised = True\<rparr>
      | DataList [] \<Rightarrow> \<lparr>issued = [], found = False, raised = False\<rparr>
      | DataList (None # _) \<Rightarrow> \<lparr>issued = [], found = False, raised = True\<rparr>
      | DataList (Some trade # _) \<Rightarrow>
          (let currentHash = orOpt (act_id trade) (act_transactionHash trade) in
           if truthyStr (lastHash w) \<and> lastHash w \<noteq> currentHash then
             (let alert = (act_type trade = Some ''TRADE'') in
              \<lparr>issued = (if alert then [SendMessage chatId (walletMessage B w trade)] else [])
                         @ [UpdateOne chatId (address w) currentHash],
               found = alert, raised = \<not> dbOk\<rparr>)
           else if \<not> truthyStr (lastHash w) then
             \<lparr>issued = [UpdateOne chatId (address w) currentHash], found = False,
              raised = \<not> dbOk\<rparr>
           else \<lparr>issued = [], found = False, raised = False\<rparr>))"

text \<open>The \<open>try\<close> with its \<open>catch (e) { console.error(...) }\<close>.\<close>

definition scanWallet ::
  "builtins \<Rightarrow> string \<Rightarrow> wallet \<times> activity option response \<times> bool \<Rightarrow> event list \<times> bool" where
  "scanWallet B chatId x =
     (case x of (w, res, dbOk) \<Rightarrow>
        (let a = tryWallet B chatId w res dbOk in
         (issued a @ (if raised a then [ConsoleError (''Error scanning wallet '' @ name w)] else []),
          found a)))"

text \<open>\<open>for (const w of user.wallets)\<close>, threading \<open>updatesFound\<close>.\<close>

fun scanLoop ::
  "builtins \<Rightarrow> string \<Rightarrow> (wallet \<times> activity option response \<times> bool) list \<Rightarrow> bool
   \<Rightarrow> event list \<times> bool" where
  "scanLoop B chatId [] updatesFound = ([], updatesFound)"
| "scanLoop B chatId (x # xs) updatesFound =
     (case scanWallet B chatId x of
        (evs, f) \<Rightarrow>
          (case scanLoop B chatId xs (updatesFound \<or> f) of
             (later, u) \<Rightarrow> (evs @ later, u)))"

text \<open>
  \<open>scanSpecificWallets(chatId, isManual)\<close>. \<open>userDoc\<close> is the document found for the chat, if
  any, each wallet paired with the response to its request and with the database's
  acceptance of an update. A rejection of \<open>User.findOne\<close> itself precedes the loop and is
  not part of the model.
\<close>

definition emptyWatchlist :: string where
  "emptyWatchlist = [CHR 0xF0, CHR 0x9F, CHR 0x93, CHR 0xAD] @ '' Your watchlist is empty.''"

definition noNewTrades :: string where
  "noNewTrades = [CHR 0xE2, CHR 0x9C, CHR 0x85] @ '' No new trades found since last check.''"

definition scanSpecificWallets ::
  "builtins \<Rightarrow> string \<Rightarrow> bool
   \<Rightarrow> (wallet \<times> activity option response \<times> bool) list option \<Rightarrow> event list" where
  "scanSpecificWallets B chatId isManual userDoc =
     (case userDoc of
        None \<Rightarrow> (if isManual then [SendMessage chatId emptyWatchlist] else [])
      | Some [] \<Rightarrow> (if isManual then [SendMessage chatId emptyWatchlist] else [])
      | Some wallets \<Rightarrow>
          (case scanLoop B chatId wallets False of
             (evs, updatesFound) \<Rightarrow>
               evs @ (if isManual \<and> \<not> updatesFound then [SendMessage chatId noNewTrades] else [])))"

text \<open>The line logged when the database refuses the update of a wallet.\<close>

definition scanLog :: "wallet \<Rightarrow> bool \<Rightarrow> event list" where
  "scanLog w dbOk = (if dbOk then [] else [ConsoleError (''Error scanning wallet '' @ name w)])"

section \<open>The partition of the window, stated directly\<close>

text \<open>
  What the grouping loop is meant to compute: the market identifiers in the order of their
  first trade, and for each one the buys, the sells and the first trade of the market.
\<close>

definition keysOf :: "trade list \<Rightarrow> string list" where
  "keysOf w = rev (remdups (rev (map marketId w)))"

definition partitionOf :: "string \<Rightarrow> trade list \<Rightarrow> group" where
  "partitionOf m w =
     \<lparr>buys = filter (\<lambda>t. marketId t = m \<and> side t = ''Buy'') w,
      sells = filter (\<lambda>t. marketId t = m \<and> side t \<noteq> ''Buy'') w,
      meta = hd (filter (\<lambda>t. marketId t = m) w)\<rparr>"

definition partitions :: "trade list \<Rightarrow> group jsobject" where
  "partitions w = map (\<lambda>m. (m, partitionOf m w)) (keysOf w)"

text \<open>The cooldown map after the markets in \<open>ks\<close> have been stamped with \<open>now\<close>.\<close>

definition stamp :: "int \<Rightarrow> string set \<Rightarrow> (string \<rightharpoonup> int) \<Rightarrow> (string \<rightharpoonup> int)" where
  "stamp now ks cds = (\<lambda>k. if k \<in> ks then Some now else cds k)"

text \<open>
  The aggregates of one market over a window, in the words of the specification: the sum
  of the buy-side amounts, the sum of the sell-side amounts and the number of distinct
  wallets among the buys.
\<close>

definition buyVolOf :: "string \<Rightarrow> trade list \<Rightarrow> jsnum" where
  "buyVolOf m w = sumUSD (filter (\<lambda>t. marketId t = m \<and> side t = ''Buy'') w)"

definition sellVolOf :: "string \<Rightarrow> trade list \<Rightarrow> jsnum" where
  "sellVolOf m w = sumUSD (filter (\<lambda>t. marketId t = m \<and> side t \<noteq> ''Buy'') w)"

definition uniqueBuyersOf :: "string \<Rightarrow> trade list \<Rightarrow> nat" where
  "uniqueBuyersOf m w =
     card (set (map user (filter (\<lambda>t. marketId t = m \<and> side t = ''Buy'') w)))"

text \<open>The age of a trade at a clock reading: \<open>now - trade.timestamp\<close>.\<close>

definition tradeAge :: "int \<Rightarrow> trade \<Rightarrow> jsnum" where
  "tradeAge now t = js_sub (num_of_int now) (timestamp t)"

section \<open>Example data\<close>

definition exampleTrade :: "string \<Rightarrow> string \<Rightarrow> string \<Rightarrow> rat \<Rightarrow> trade" where
  "exampleTrade m u s usd =
     \<lparr>timestamp = Fin 1700000000000, amountUSD = Fin usd, user = u, marketId = m,
      marketName = ''Will it rain?'', marketSlug = ''will-it-rain'', outcome = ''Yes'',
      side = s\<rparr>"

text \<open>Three buys of market \<open>501\<close> by three wallets, the last one of \<open>x\<close> dollars.\<close>

definition exampleWindow :: "rat \<Rightarrow> trade list" where
  "exampleWindow x =
     [exampleTrade ''501'' ''0xa'' ''Buy'' 4000,
      exampleTrade ''501'' ''0xb'' ''Buy'' 3000,
      exampleTrade ''501'' ''0xc'' ''Buy'' x]"

definition exampleDetector :: "rat \<Rightarrow> detector" where
  "exampleDetector x = \<lparr>tradeWindow = exampleWindow x, alertCooldowns = Map.empty\<rparr>"

definition exampleSingle :: "rat \<Rightarrow> detector" where
  "exampleSingle x =
     \<lparr>tradeWindow = [exampleTrade ''501'' ''0xa'' ''Buy'' x], alertCooldowns = Map.empty\<rparr>"

definition exampleMixed :: "rat \<Rightarrow> rat \<Rightarrow> detector" where
  "exampleMixed b s =
     \<lparr>tradeWindow =
        [exampleTrade ''501'' ''0xa'' ''Buy'' 100,
         exampleTrade ''501'' ''0xd'' ''Sell'' s,
         exampleTrade ''501'' ''0xb'' ''Buy'' 100,
         exampleTrade ''501'' ''0xc'' ''Buy'' b],
      alertCooldowns = Map.empty\<rparr>"

text \<open>The example detector after its alert at the clock reading \<open>T\<close>.\<close>

definition exampleAlerted :: "int \<Rightarrow> detector" where
  "exampleAlerted T = exampleDetector 3001\<lparr>alertCooldowns := [''501'' \<mapsto> T]\<rparr>"

text \<open>Built-ins that scan no string; the examples hold numbers only.\<close>

definition exampleBuiltins :: builtins where
  "exampleBuiltins =
     \<lparr>parseFloatStr = (\<lambda>s. NaN), toNumberStr = (\<lambda>s. NaN), dateParseStr = (\<lambda>s. NaN),
      numberToString = (\<lambda>q. [])\<rparr>"

definition exampleMarket :: market where
  "exampleMarket = \<lparr>market_id = ''501'', question = ''Will it rain?'', slug = ''will-it-rain''\<rparr>"

text \<open>A buy of 12000 shares at half a dollar, and the same record without its size.\<close>

definition exampleActivity :: activity where
  "exampleActivity =
     \<lparr>act_id = Some ''tx1'', act_transactionHash = Some ''0xabc'', act_type = Some ''TRADE'',
      act_side = Some ''BUY'', act_size = JNum (Fin 12000), act_price = JNum (Fin (1 / 2)),
      act_outcome = Some ''Yes'', act_title = Some ''Will it rain?'',
      act_slug = Some ''will-it-rain'', act_timestamp = JNum (Fin 1700000000000),
      act_taker = None, act_proxyWallet = Some ''0xa''\<rparr>"

definition exampleMalformed :: activity where
  "exampleMalformed = exampleActivity\<lparr>act_size := JUndefined\<rparr>"

text \<open>One poll of the global scanner that finds the example trade, at the clock \<open>now\<close>.\<close>

definition examplePoll :: "int \<Rightarrow> detector \<Rightarrow> event list \<times> detector" where
  "examplePoll now d =
     scanGlobalMarket exampleBuiltins
       (DataList [(exampleMarket, DataList [(now, Some exampleActivity)])]) now
       (DataList [''42'']) d"

text \<open>The trade that the detector receives for the example record.\<close>

definition exampleCopy :: trade where
  "exampleCopy = exampleTrade ''501'' ''0xa'' ''Buy'' 6000"

text \<open>A larger buy by another wallet: 40000 shares at half a dollar.\<close>

definition exampleBig :: activity where
  "exampleBig = exampleActivity\<lparr>act_size := JNum (Fin 40000), act_proxyWallet := Some ''0xb''\<rparr>"

text \<open>The trade built from the example record without its size.\<close>

definition exampleNaNTrade :: trade where
  "exampleNaNTrade = (exampleTrade ''501'' ''0xa'' ''Buy'' 0)\<lparr>amountUSD := NaN\<rparr>"

text \<open>A watched wallet with the stored fingerprint \<open>h\<close>, and a later record of the same wallet.\<close>

definition exampleWallet :: "string option \<Rightarrow> wallet" where
  "exampleWallet h = \<lparr>address = ''0xa'', name = ''Whale'', lastHash = h\<rparr>"

definition exampleHashOnly :: activity where
  "exampleHashOnly = exampleActivity\<lparr>act_id := None\<rparr>"

text \<open>
  A watchlist of five entries: a changed fingerprint, a failed request, a \<open>null\<close> record,
  a first sync that the database refuses, and a first sync that it accepts.
\<close>

definition exampleWatchlist :: "(wallet \<times> activity option response \<times> bool) list" where
  "exampleWatchlist =
     [(exampleWallet (Some ''tx0''), DataList [Some exampleActivity], True),
      (exampleWallet (Some ''tx0''), RequestFailed, True),
      (exampleWallet (Some ''tx0''), DataList [None], True),
      (exampleWallet None, DataList [Some exampleActivity], False),
      (exampleWallet None, DataList [Some exampleActivity], True)]"

text \<open>
  Amounts in dollars and cents. The number that the literal \<open>8008.76\<close> denotes, and that
  \<open>parseFloat\<close> yields for that text, is the double nearest to \<open>8008.76\<close>.
\<close>

definition exampleAmount :: "string \<Rightarrow> string \<Rightarrow> jsnum \<Rightarrow> trade" where
  "exampleAmount u s x = (exampleTrade ''501'' u s 0)\<lparr>amountUSD := x\<rparr>"

text \<open>Three wallets buying 8008.76, 661.73 and 1329.51 dollars.\<close>

definition exampleCents :: detector where
  "exampleCents =
     \<lparr>tradeWindow =
        [exampleAmount ''0xa'' ''Buy'' (roundDouble (800876 / 100)),
         exampleAmount ''0xb'' ''Buy'' (roundDouble (66173 / 100)),
         exampleAmount ''0xc'' ''Buy'' (roundDouble (132951 / 100))],
      alertCooldowns = Map.empty\<rparr>"

text \<open>One wallet buying 15000.15 dollars against a sale of 5000.05 dollars.\<close>

definition exampleQuotient :: detector where
  "exampleQuotient =
     \<lparr>tradeWindow =
        [exampleAmount ''0xa'' ''Buy'' (roundDouble (1500015 / 100)),
         exampleAmount ''0xd'' ''Sell'' (roundDouble (500005 / 100))],
      alertCooldowns = Map.empty\<rparr>"




section \<open>Rounding to the nearest double\<close>

text \<open>
  The binade of a positive rational is found correctly; a value that is a double already
  is left as it is, in particular an integer below \<open>2^53\<close>; the rounding of a value that is
  at most an integer below \<open>2^53\<close> is at most that integer; and the rounding of a value
  in the normal range is the multiple of the spacing within half a spacing of it.
\<close>

lemma log2floor_bounds: "0 < n \<Longrightarrow> 2 ^ log2floor n \<le> n \<and> n < 2 ^ Suc (log2floor n)"
proof (induction n rule: log2floor.induct)
  case (1 n)
  show ?case
  proof (cases "n < 2")
    case True
    with 1(2) have "n = 1" by simp
    then show ?thesis by (simp add: log2floor.simps)
  next
    case False
    then have "0 < n div 2" by simp
    with 1(1) False have ih: "2 ^ log2floor (n div 2) \<le> n div 2 \<and> n div 2 < 2 ^ Suc (log2floor (n div 2))"
      by simp
    have s: "log2floor n = Suc (log2floor (n div 2))"
      using False by (subst log2floor.simps) simp
    from ih show ?thesis unfolding s by auto
  qed
qed

lemma exponentOf_bounds:
  assumes "0 < a"
  shows "2 powi exponentOf a \<le> a \<and> a < 2 powi (exponentOf a + 1)"
proof (cases "1 \<le> a")
  case True
  define n where "n = nat \<lfloor>a\<rfloor>"
  have n: "0 < n" using True by (simp add: n_def)
  have na: "of_nat n \<le> a" "a < of_nat n + 1"
    using True floor_correct [of a] by (simp_all add: n_def)
  note b = log2floor_bounds [OF n]
  have e: "exponentOf a = int (log2floor n)" using True by (simp add: exponentOf_def n_def)
  have "(2::rat) ^ log2floor n \<le> of_nat n"
    using b by (metis of_nat_le_iff of_nat_numeral of_nat_power)
  then have l: "2 powi exponentOf a \<le> a" using na unfolding e power_int_of_nat by linarith
  have "n + 1 \<le> 2 ^ Suc (log2floor n)" using b by simp
  then have "(of_nat (n + 1) :: rat) \<le> of_nat (2 ^ Suc (log2floor n))"
    by (simp only: of_nat_le_iff)
  then have "of_nat n + 1 \<le> (2::rat) ^ Suc (log2floor n)" by simp
  then have "a < 2 ^ Suc (log2floor n)" using na by linarith
  then have u: "a < 2 powi (exponentOf a + 1)"
    unfolding e by (simp add: power_int_add)
  from l u show ?thesis ..
next
  case False
  define x where "x = 1 / a"
  have x: "1 < x" using False assms by (simp add: x_def)
  define m where "m = nat (\<lceil>x\<rceil> - 1)"
  have c: "2 \<le> \<lceil>x\<rceil>" using x by (simp add: le_ceiling_iff)
  then have m: "0 < m" by (simp add: m_def)
  have mx: "of_nat m < x" "x \<le> of_nat m + 1"
    using c ceiling_correct [of x] by (simp_all add: m_def)
  note b = log2floor_bounds [OF m]
  have e: "exponentOf a = - 1 - int (log2floor m)"
    using False by (simp add: exponentOf_def m_def x_def)
  have ax: "a = 1 / x" using assms by (simp add: x_def)
  have p1: "(2::rat) ^ log2floor m \<le> of_nat m"
    using b by (metis of_nat_le_iff of_nat_numeral of_nat_power)
  have "m + 1 \<le> 2 ^ Suc (log2floor m)" using b by simp
  then have "(of_nat (m + 1) :: rat) \<le> of_nat (2 ^ Suc (log2floor m))"
    by (simp only: of_nat_le_iff)
  then have p2: "of_nat m + 1 \<le> (2::rat) ^ Suc (log2floor m)" by simp
  have xl: "2 ^ log2floor m < x" using p1 mx by linarith
  have xu: "x \<le> 2 ^ Suc (log2floor m)" using p2 mx by linarith
  have "exponentOf a = - int (Suc (log2floor m))" unfolding e by simp
  then have e1: "(2::rat) powi exponentOf a = 1 / 2 ^ Suc (log2floor m)"
    by (simp only: power_int_minus_divide power_int_of_nat)
  have "exponentOf a + 1 = - int (log2floor m)" unfolding e by simp
  then have e2: "(2::rat) powi (exponentOf a + 1) = 1 / 2 ^ log2floor m"
    by (simp only: power_int_minus_divide power_int_of_nat)
  have "1 / 2 ^ Suc (log2floor m) \<le> 1 / x"
    using xu x by (simp add: field_simps)
  then have l: "2 powi exponentOf a \<le> a"
    using e1 ax by simp
  have "1 / x < 1 / 2 ^ log2floor m"
    using xl x by (simp add: field_simps)
  then have u: "a < 2 powi (exponentOf a + 1)"
    using e2 ax by simp
  from l u show ?thesis ..
qed

lemma exponentOf_unique:
  assumes "2 powi e \<le> a" and "a < 2 powi (e + 1)"
  shows "exponentOf a = e"
proof -
  have pos: "0 < a" using assms(1) by (rule less_le_trans [rotated]) simp
  note b = exponentOf_bounds [OF pos]
  have "(2::rat) powi e < 2 powi (exponentOf a + 1)" using assms(1) b by linarith
  then have 1: "e < exponentOf a + 1"
    using power_int_increasing [of "exponentOf a + 1" e "2::rat"] by (cases "e < exponentOf a + 1") auto
  have "(2::rat) powi exponentOf a < 2 powi (e + 1)" using assms(2) b by linarith
  then have 2: "exponentOf a < e + 1"
    using power_int_increasing [of "e + 1" "exponentOf a" "2::rat"] by (cases "exponentOf a < e + 1") auto
  from 1 2 show ?thesis by simp
qed



lemma pow2_add: "(2::rat) powi (a + b) = 2 powi a * 2 powi b"
  by (rule power_int_add) simp

lemma pow2_diff: "(2::rat) powi (a - b) = 2 powi a / 2 powi b"
  by (rule power_int_diff) simp

lemma roundHalfEven_of_int: "roundHalfEven (of_int k) = k"
  by (simp add: roundHalfEven_def)

lemma roundHalfEven_le:
  assumes "x \<le> of_int K"
  shows "roundHalfEven x \<le> K"
proof -
  have f: "\<lfloor>x\<rfloor> \<le> K" using assms by (simp add: floor_le_iff) 
  show ?thesis
  proof (cases "\<lfloor>x\<rfloor> = K")
    case True
    then have "x = of_int \<lfloor>x\<rfloor>" using assms floor_correct [of x] by linarith
    then have "x - of_int \<lfloor>x\<rfloor> = 0" by simp
    then show ?thesis using True by (simp add: roundHalfEven_def Let_def)
  next
    case False
    with f have "\<lfloor>x\<rfloor> + 1 \<le> K" by simp
    then show ?thesis by (simp add: roundHalfEven_def Let_def)
  qed
qed

lemma roundHalfEven_ge:
  assumes "of_int K \<le> x"
  shows "K \<le> roundHalfEven x"
proof -
  have "K \<le> \<lfloor>x\<rfloor>" using assms by (simp add: le_floor_iff)
  then show ?thesis by (simp add: roundHalfEven_def Let_def)
qed

lemma roundMagnitude_normal:
  assumes "2 powi e \<le> a" and "a < 2 powi (e + 1)" and "- 1022 \<le> e"
  shows "roundMagnitude a = of_int (roundHalfEven (a / 2 powi (e - 52))) * 2 powi (e - 52)"
proof -
  have "exponentOf a = e" using assms(1,2) by (rule exponentOf_unique)
  then show ?thesis using assms(3) by (simp add: roundMagnitude_def Let_def max_def)
qed

lemma roundMagnitude_subnormal:
  assumes "0 < a" and "a < 2 powi (- 1022)"
  shows "roundMagnitude a = of_int (roundHalfEven (a / 2 powi (- 1074))) * 2 powi (- 1074)"
proof -
  note b = exponentOf_bounds [OF assms(1)]
  have "(2::rat) powi exponentOf a < 2 powi (- 1022)" using b assms(2) by linarith
  then have "exponentOf a < - 1022"
    using power_int_increasing [of "- 1022" "exponentOf a" "2::rat"]
    by (cases "exponentOf a < - 1022") auto
  then show ?thesis by (simp add: roundMagnitude_def Let_def max_def del: power_int_numeral_neg_numeral power_int_minus)
qed

lemma roundMagnitude_dyadic:
  assumes "0 < k" and "k < 2 ^ 53" and "- 1074 \<le> z"
  shows "roundMagnitude (of_int k * 2 powi z) = of_int k * 2 powi z"
proof -
  let ?a = "of_int k * 2 powi z :: rat"
  have pos: "0 < ?a" using assms(1) by simp
  define e where "e = max (- 1022) (exponentOf ?a)"
  have "(of_int k :: rat) < of_int (2 ^ 53)" using assms(2) by (simp only: of_int_less_iff)
  then have "(of_int k :: rat) < 2 powi 53" by simp
  then have "?a < 2 powi 53 * 2 powi z" by (simp del: power_int_numeral)
  then have "?a < 2 powi (z + 53)" by (simp add: power_int_add del: power_int_numeral)
  with exponentOf_bounds [OF pos] have "(2::rat) powi exponentOf ?a < 2 powi (z + 53)" by linarith
  then have "exponentOf ?a < z + 53"
    using power_int_increasing [of "z + 53" "exponentOf ?a" "2::rat"]
    by (cases "exponentOf ?a < z + 53") auto
  then have d: "0 \<le> z - (e - 52)" using assms(3) by (simp add: e_def max_def)
  have "?a / 2 powi (e - 52) = of_int k * 2 powi (z - (e - 52))"
    by (simp add: power_int_diff)
  also have "\<dots> = of_int k * 2 ^ nat (z - (e - 52))"
    using d by (simp add: power_int_def)
  also have "\<dots> = of_int (k * 2 ^ nat (z - (e - 52)))" by simp
  finally have q: "?a / 2 powi (e - 52) = of_int (k * 2 ^ nat (z - (e - 52)))" .
  have "roundMagnitude ?a = of_int (roundHalfEven (?a / 2 powi (e - 52))) * 2 powi (e - 52)"
    by (simp add: roundMagnitude_def Let_def e_def)
  also have "\<dots> = ?a / 2 powi (e - 52) * 2 powi (e - 52)"
    unfolding q roundHalfEven_of_int by (simp only: q)
  also have "\<dots> = ?a" by simp
  finally show ?thesis .
qed

lemma roundMagnitude_less_limit:
  assumes "2 powi e \<le> a" and "a < 2 powi (e + 1)" and "- 1022 \<le> e" and "e < 1023"
  shows "roundMagnitude a < doubleLimit"
proof -
  let ?u = "2 powi (e - 52) :: rat"
  have "a / ?u < 2 powi (e + 1) / ?u" using assms(2) by (simp add: divide_strict_right_mono)
  also have "\<dots> = of_int (2 ^ 53)" using pow2_diff [of "e + 1" "e - 52"] by simp
  finally have "roundHalfEven (a / ?u) \<le> 2 ^ 53" by (intro roundHalfEven_le) simp
  then have "(of_int (roundHalfEven (a / ?u)) :: rat) \<le> of_int (2 ^ 53)"
    by (simp only: of_int_le_iff)
  then have "of_int (roundHalfEven (a / ?u)) * ?u \<le> of_int (2 ^ 53) * ?u"
    by (intro mult_right_mono) simp_all
  also have "of_int (2 ^ 53) * ?u = 2 powi (e + 1)"
    using pow2_add [of 53 "e - 52"] by (simp add: add.commute)
  also have "\<dots> \<le> 2 powi 1023" using assms(4) by (intro power_int_increasing) simp_all
  also have "\<dots> < doubleLimit" by (simp add: doubleLimit_def)
  finally show ?thesis by (simp add: roundMagnitude_normal [OF assms(1-3)])
qed

lemma roundDouble_normal:
  assumes "2 powi e \<le> q" and "q < 2 powi (e + 1)" and "- 1022 \<le> e" and "e < 1023"
  shows "roundDouble q = Fin (of_int (roundHalfEven (q / 2 powi (e - 52))) * 2 powi (e - 52))"
proof -
  have pos: "0 < q" using assms(1) by (rule less_le_trans [rotated]) simp
  then have a: "\<bar>q\<bar> = q" by simp
  have "roundMagnitude q < doubleLimit" using assms by (rule roundMagnitude_less_limit)
  then show ?thesis
    using pos by (simp add: roundDouble_def a Let_def roundMagnitude_normal [OF assms(1-3)])
qed

lemma roundDouble_minus:
  "roundDouble (- q) = (case roundDouble q of Fin r \<Rightarrow> Fin (- r) | PosInf \<Rightarrow> NegInf
                         | NegInf \<Rightarrow> PosInf | NaN \<Rightarrow> NaN)"
  by (simp add: roundDouble_def Let_def)

lemma roundDouble_dyadic:
  assumes "\<bar>k\<bar> < 2 ^ 53" and "- 1074 \<le> z" and "z \<le> 971"
  shows "roundDouble (of_int k * 2 powi z) = Fin (of_int k * 2 powi z)"
proof -
  have pos: "roundDouble (of_int j * 2 powi z) = Fin (of_int j * 2 powi z)"
    if j: "0 < j" "j < 2 ^ 53" for j
  proof -
    let ?a = "of_int j * 2 powi z :: rat"
    have p: "0 < ?a" using j(1) by simp
    have "(of_int j :: rat) < of_int (2 ^ 53)" using j(2) by (simp only: of_int_less_iff)
    then have "(of_int j :: rat) < 2 powi 53" by simp
    then have "?a < 2 powi 53 * 2 powi z" by (simp del: power_int_numeral)
    also have "\<dots> = 2 powi (53 + z)" by (simp only: pow2_add)
    also have "\<dots> \<le> 2 powi 1024" using assms(3) by (intro power_int_increasing) simp_all
    finally have "?a < doubleLimit" by (simp add: doubleLimit_def)
    then show ?thesis
      using p by (simp add: roundDouble_def Let_def roundMagnitude_dyadic [OF j assms(2)])
  qed
  consider "k = 0" | "0 < k" | "k < 0" by linarith
  then show ?thesis
  proof cases
    case 1
    then show ?thesis by (simp add: roundDouble_def)
  next
    case 2
    then show ?thesis using assms(1) by (intro pos) simp_all
  next
    case 3
    then have "roundDouble (of_int (- k) * 2 powi z) = Fin (of_int (- k) * 2 powi z)"
      using assms(1) by (intro pos) simp_all
    then have "roundDouble (- (of_int k * 2 powi z)) = Fin (- (of_int k * 2 powi z))"
      by simp
    then show ?thesis
      by (simp add: roundDouble_minus [of "of_int k * 2 powi z"] split: jsnum.splits)
  qed
qed

lemma roundDouble_of_int:
  assumes "\<bar>k\<bar> < 2 ^ 53"
  shows "roundDouble (of_int k) = Fin (of_int k)"
  using roundDouble_dyadic [OF assms, of 0] by simp

lemma roundDouble_zero [simp]: "roundDouble 0 = Fin 0"
  by (simp add: roundDouble_def)

lemma roundDouble_one [simp]: "roundDouble 1 = Fin 1"
  using roundDouble_of_int [of 1] by simp

lemma roundDouble_numeral [simp]:
  "numeral n < (2::int) ^ 53 \<Longrightarrow> roundDouble (numeral n) = Fin (numeral n)"
  using roundDouble_of_int [of "numeral n"] by simp

lemma roundDouble_neg_numeral [simp]:
  "numeral n < (2::int) ^ 53 \<Longrightarrow> roundDouble (- numeral n) = Fin (- numeral n)"
  using roundDouble_of_int [of "- numeral n"] by simp

lemma roundMagnitude_nonneg:
  assumes "0 < a"
  shows "0 \<le> roundMagnitude a"
proof -
  define u where "u = (2::rat) powi (max (- 1022) (exponentOf a) - 52)"
  have u: "0 < u" by (simp add: u_def)
  then have "of_int 0 \<le> a / u" using assms by simp
  then have "0 \<le> roundHalfEven (a / u)" by (rule roundHalfEven_ge)
  then have "0 \<le> of_int (roundHalfEven (a / u)) * u" using u by simp
  then show ?thesis by (simp add: roundMagnitude_def Let_def u_def)
qed

lemma roundMagnitude_le_int:
  assumes "0 < a" and "a \<le> of_int K" and "K < 2 ^ 53"
  shows "roundMagnitude a \<le> of_int K"
proof -
  define e where "e = max (- 1022) (exponentOf a)"
  define u where "u = (2::rat) powi (e - 52)"
  have u: "0 < u" by (simp add: u_def)
  have "(of_int K :: rat) < of_int (2 ^ 53)" using assms(3) by (simp only: of_int_less_iff)
  then have "a < 2 powi 53" using assms(2) by simp
  with exponentOf_bounds [OF assms(1)] have "(2::rat) powi exponentOf a < 2 powi 53" by linarith
  then have "exponentOf a < 53"
    using power_int_increasing [of 53 "exponentOf a" "2::rat"]
    by (cases "exponentOf a < 53") auto
  then have d: "e - 52 \<le> 0" by (simp add: e_def max_def)
  have "1 / u = 2 powi (- (e - 52))" by (simp only: u_def power_int_minus_divide)
  also have "\<dots> = 2 ^ nat (- (e - 52))" using d by (simp add: power_int_def)
  finally have iu: "1 / u = 2 ^ nat (52 - e)" by simp
  have "of_int K / u = of_int K * (1 / u)" by simp
  also have "\<dots> = of_int (K * 2 ^ nat (52 - e))" unfolding iu by simp
  finally have k: "of_int K / u = of_int (K * 2 ^ nat (52 - e))" .
  have "a / u \<le> of_int K / u" using assms(2) u by (simp add: divide_right_mono)
  then have "roundHalfEven (a / u) \<le> K * 2 ^ nat (52 - e)"
    unfolding k by (rule roundHalfEven_le)
  then have "(of_int (roundHalfEven (a / u)) :: rat) \<le> of_int (K * 2 ^ nat (52 - e))"
    by (simp only: of_int_le_iff)
  then have "of_int (roundHalfEven (a / u)) * u \<le> of_int (K * 2 ^ nat (52 - e)) * u"
    using u by (intro mult_right_mono) simp_all
  also have "\<dots> = of_int K / u * u" by (simp only: k)
  also have "\<dots> = of_int K" using u by simp
  finally show ?thesis by (simp add: roundMagnitude_def Let_def u_def e_def)
qed

lemma roundDouble_le_int:
  assumes "q \<le> of_int K" and "0 < K" and "K < 2 ^ 53"
  shows "js_le (roundDouble q) (Fin (of_int K))"
proof -
  consider "q = 0" | "0 < q" | "q < 0" by linarith
  then show ?thesis
  proof cases
    case 1
    then show ?thesis using assms(2) by (simp add: roundDouble_def js_le_def)
  next
    case 2
    then have m: "roundMagnitude \<bar>q\<bar> \<le> of_int K"
      using assms(1,3) by (simp add: roundMagnitude_le_int)
    have "(of_int K :: rat) < of_int (2 ^ 53)" using assms(3) by (simp only: of_int_less_iff)
    also have "\<dots> < doubleLimit" by (simp add: doubleLimit_def)
    finally have "roundMagnitude \<bar>q\<bar> < doubleLimit" using m by simp
    then show ?thesis
      using 2 m by (auto simp: roundDouble_def Let_def js_le_def js_eq_def)
  next
    case 3
    then have "0 \<le> roundMagnitude \<bar>q\<bar>" by (intro roundMagnitude_nonneg) simp
    moreover have "(0::rat) < of_int K" using assms(2) by simp
    ultimately show ?thesis
      using 3 by (auto simp: roundDouble_def Let_def js_le_def js_eq_def)
  qed
qed

lemma roundHalfEven_nearest:
  assumes "\<bar>x - of_int n\<bar> < 1 / 2"
  shows "roundHalfEven x = n"
proof -
  have b: "of_int n - 1 < x" "x < of_int n + 1"
    using assms by linarith+
  have "of_int (n - 1) \<le> x" using b(1) by simp
  then have l: "n - 1 \<le> \<lfloor>x\<rfloor>" by (simp only: le_floor_iff)
  have "x < of_int (n + 1)" using b(2) by simp
  then have u: "\<lfloor>x\<rfloor> < n + 1" by (simp only: floor_less_iff)
  from l u have "\<lfloor>x\<rfloor> = n \<or> \<lfloor>x\<rfloor> = n - 1" by linarith
  then show ?thesis
  proof
    assume f: "\<lfloor>x\<rfloor> = n"
    then have "x - of_int \<lfloor>x\<rfloor> < 1 / 2" using assms by linarith
    then show ?thesis using f by (simp add: roundHalfEven_def Let_def)
  next
    assume f: "\<lfloor>x\<rfloor> = n - 1"
    have "of_int n - 1 / 2 < x" using assms by linarith
    moreover have "(of_int \<lfloor>x\<rfloor> :: rat) = of_int n - 1" unfolding f by simp
    ultimately have "1 / 2 < x - of_int \<lfloor>x\<rfloor>" by linarith
    then have "\<not> x - of_int \<lfloor>x\<rfloor> < 1 / 2" by linarith
    with \<open>1 / 2 < x - of_int \<lfloor>x\<rfloor>\<close> show ?thesis
      unfolding roundHalfEven_def Let_def using f by simp
  qed
qed

lemma roundDouble_nearest:
  assumes "2 powi e \<le> q" and "q < 2 powi (e + 1)" and "- 1022 \<le> e" and "e < 1023"
    and "\<bar>q / 2 powi (e - 52) - of_int n\<bar> < 1 / 2"
  shows "roundDouble q = Fin (of_int n * 2 powi (e - 52))"
  by (simp add: roundDouble_normal [OF assms(1-4)] roundHalfEven_nearest [OF assms(5)])

lemma js_lt_trans: "js_lt a b \<Longrightarrow> js_lt b c \<Longrightarrow> js_lt a c"
  by (cases a; cases b; cases c) auto

section \<open>The arithmetic of the examples\<close>

text \<open>
  The product \<open>0.1 * 0.7\<close> is \<open>0.06999999999999999\<close>, the double below the one that \<open>0.07\<close>
  denotes. The sum \<open>0.1 + 0.2\<close> lies halfway between two doubles and is the one with the
  even significand, \<open>0.30000000000000004\<close>, not the one that \<open>0.3\<close> denotes.
\<close>

lemma floor_numeral_div: "\<lfloor>numeral a / numeral b :: rat\<rfloor> = numeral a div numeral b"
  using floor_divide_of_int_eq [of "numeral a" "numeral b", where ?'a = rat] by simp

lemma tenths:
  "roundDouble (1 / 10) = Fin (3602879701896397 / 36028797018963968)"
  "roundDouble (2 / 10) = Fin (3602879701896397 / 18014398509481984)"
  "roundDouble (3 / 10) = Fin (5404319552844595 / 18014398509481984)"
  "roundDouble (7 / 10) = Fin (3152519739159347 / 4503599627370496)"
  "roundDouble (7 / 100) = Fin (5044031582654956 / 72057594037927936)"
  using roundDouble_nearest [of "- 4" "1 / 10" 7205759403792794]
    roundDouble_nearest [of "- 3" "2 / 10" 7205759403792794]
    roundDouble_nearest [of "- 2" "3 / 10" 5404319552844595]
    roundDouble_nearest [of "- 1" "7 / 10" 6305039478318694]
    roundDouble_nearest [of "- 4" "7 / 100" 5044031582654956]
  by simp_all

lemma product_of_tenths:
  "js_mul (Fin (3602879701896397 / 36028797018963968)) (Fin (3152519739159347 / 4503599627370496))
     = Fin (5044031582654955 / 72057594037927936)"
  using roundDouble_nearest
    [of "- 4" "3602879701896397 / 36028797018963968 * (3152519739159347 / 4503599627370496)"
       5044031582654955]
  by simp

lemma sum_of_tenths:
  "js_add (Fin (3602879701896397 / 36028797018963968)) (Fin (3602879701896397 / 18014398509481984))
     = Fin (5404319552844596 / 18014398509481984)"
  by (simp, subst roundDouble_normal [of "- 2"])
     (simp_all add: roundHalfEven_def Let_def floor_numeral_div)

text \<open>The quotients \<open>299 / 100\<close> and \<open>14999 / 5000\<close> as doubles; both are below 3.\<close>

lemma quotient_299_100:
  "roundDouble (299 / 100) = Fin (1683220360729723 / 562949953421312)"
  using roundDouble_nearest [of 1 "299 / 100" 6732881442918892] by simp

lemma quotient_14999_5000:
  "roundDouble (14999 / 5000) = Fin (6754949081093007 / 2251799813685248)"
  using roundDouble_nearest [of 1 "14999 / 5000" 6754949081093007] by simp

text \<open>
  The amounts of the examples in cents, as doubles. Added from the left, the three buys
  of \<open>exampleCents\<close> come to exactly 10000, and the quotient of the two amounts of
  \<open>exampleQuotient\<close> is exactly 3; neither holds of the exact values of these doubles, whose
  sum is above 10000 and whose quotient is below 3.
\<close>

lemma cents_8008_76:
  "roundDouble (800876 / 100) = Fin (4402862372033659 / 549755813888)"
  using roundDouble_nearest [of 12 "800876 / 100" 8805724744067318] by simp

lemma cents_661_73:
  "roundDouble (66173 / 100) = Fin (1455159658896425 / 2199023255552)"
  using roundDouble_nearest [of 9 "66173 / 100" 5820638635585700] by simp

lemma cents_1329_51:
  "roundDouble (132951 / 100) = Fin (5847246816977879 / 4398046511104)"
  using roundDouble_nearest [of 10 "132951 / 100" 5847246816977879] by simp

lemma cents_15000_15:
  "roundDouble (1500015 / 100) = Fin (8246419671692083 / 549755813888)"
  using roundDouble_nearest [of 13 "1500015 / 100" 8246419671692083] by simp

lemma cents_5000_05:
  "roundDouble (500005 / 100) = Fin (5497613114461389 / 1099511627776)"
  using roundDouble_nearest [of 12 "500005 / 100" 5497613114461389] by simp

lemma cents_sum_1:
  "js_add (Fin 0) (Fin (4402862372033659 / 549755813888)) = Fin (4402862372033659 / 549755813888)"
  using roundDouble_nearest [of 12 "4402862372033659 / 549755813888" 8805724744067318] by simp

lemma cents_sum_2:
  "js_add (Fin (4402862372033659 / 549755813888)) (Fin (1455159658896425 / 2199023255552))
     = Fin (4766652286757765 / 549755813888)"
  using roundDouble_nearest
    [of 13 "4402862372033659 / 549755813888 + 1455159658896425 / 2199023255552" 4766652286757765]
  by simp

lemma cents_sum_3:
  "js_add (Fin (4766652286757765 / 549755813888)) (Fin (5847246816977879 / 4398046511104))
     = Fin 10000"
  using roundDouble_nearest
    [of 13 "4766652286757765 / 549755813888 + 5847246816977879 / 4398046511104" 5497558138880000]
  by simp

lemma cents_exact_sum:
  "(4402862372033659 / 549755813888 + 1455159658896425 / 2199023255552
     + 5847246816977879 / 4398046511104 :: rat) > 10000"
  by simp

lemma cents_sum_4:
  "js_add (Fin 0) (Fin (8246419671692083 / 549755813888)) = Fin (8246419671692083 / 549755813888)"
  using roundDouble_nearest [of 13 "8246419671692083 / 549755813888" 8246419671692083] by simp

lemma cents_sum_5:
  "js_add (Fin 0) (Fin (5497613114461389 / 1099511627776)) = Fin (5497613114461389 / 1099511627776)"
  using roundDouble_nearest [of 12 "5497613114461389 / 1099511627776" 5497613114461389] by simp

lemma cents_quotient:
  "js_div (Fin (8246419671692083 / 549755813888)) (Fin (5497613114461389 / 1099511627776)) = Fin 3"
  using roundDouble_nearest
    [of 1 "(8246419671692083 / 549755813888) / (5497613114461389 / 1099511627776)" 6755399441055744]
  by simp

lemma cents_exact_quotient:
  "((8246419671692083 / 549755813888) / (5497613114461389 / 1099511627776) :: rat) < 3"
  by simp

section \<open>The grouping loop computes the partition\<close>

text \<open>
  When no market identifier of the window names a property of \<open>Object.prototype\<close>, the
  loop over the window ends with the object \<open>partitions\<close>; otherwise it raises. The loop
  over the entries then treats each market on its own, since a stamp touches the key of
  its own market only.
\<close>

lemma groupTrades_snoc:
  "groupTrades gs (ts @ [t]) =
     (case groupTrades gs ts of Inl e \<Rightarrow> Inl e | Inr gs' \<Rightarrow> groupStep gs' t)"
  by (induction ts arbitrary: gs) (auto split: sum.splits)

lemma keysOf_snoc:
  "keysOf (w @ [t]) =
     (if marketId t \<in> marketId ` set w then keysOf w else keysOf w @ [marketId t])"
  by (auto simp: keysOf_def)

lemma set_keysOf [simp]: "set (keysOf w) = marketId ` set w"
  by (simp add: keysOf_def)

lemma distinct_keysOf [simp]: "distinct (keysOf w)"
  by (simp add: keysOf_def)

lemma map_entry_map:
  "distinct ks \<Longrightarrow>
   AList.map_entry k f (map (\<lambda>m. (m, F m)) ks) = map (\<lambda>m. (m, if m = k then f (F m) else F m)) ks"
  by (induction ks) auto

lemma map_of_partitions:
  "map_of (partitions w) m = (if m \<in> marketId ` set w then Some (partitionOf m w) else None)"
  by (auto simp: partitions_def map_of_map_restrict restrict_map_def)

lemma partitionOf_snoc_same:
  "partitionOf (marketId t) (w @ [t]) =
     pushTrade t (if marketId t \<in> marketId ` set w then partitionOf (marketId t) w
                  else \<lparr>buys = [], sells = [], meta = t\<rparr>)"
proof (cases "marketId t \<in> marketId ` set w")
  case True
  then have "filter (\<lambda>x. marketId x = marketId t) w \<noteq> []"
    by (auto simp: filter_empty_conv)
  with True show ?thesis
    by (simp add: partitionOf_def pushTrade_def hd_append)
next
  case False
  then have no: "\<forall>x\<in>set w. marketId x \<noteq> marketId t"
    by (metis imageI)
  then have "\<And>P. filter (\<lambda>x. marketId x = marketId t \<and> P x) w = []"
    and "filter (\<lambda>x. marketId x = marketId t) w = []"
    by (simp_all add: filter_empty_conv)
  with False show ?thesis
    by (simp add: partitionOf_def pushTrade_def)
qed

lemma partitionOf_snoc_other:
  "m \<noteq> marketId t \<Longrightarrow> partitionOf m (w @ [t]) = partitionOf m w"
  by (auto simp: partitionOf_def)

lemma map_entry_snoc_fresh:
  "k \<notin> fst ` set xs \<Longrightarrow> AList.map_entry k f (xs @ [(k, v)]) = xs @ [(k, f v)]"
  by (induction xs) auto

lemma groupStep_partitions:
  assumes "marketId t \<notin> set objectPrototypeKeys"
  shows "groupStep (partitions w) t = Inr (partitions (w @ [t]))"
proof (cases "marketId t \<in> marketId ` set w")
  case True
  then show ?thesis
    using assms
    by (simp add: groupStep_def Let_def map_of_partitions keysOf_snoc
        partitionOf_snoc_same partitionOf_snoc_other)
       (simp add: partitions_def map_entry_map keysOf_snoc partitionOf_snoc_same partitionOf_snoc_other cong: map_cong)
next
  case False
  then have "\<forall>x\<in>set w. marketId x \<noteq> marketId t"
    by (metis imageI)
  with False show ?thesis
    using assms
    by (simp add: groupStep_def Let_def map_of_partitions)
       (simp add: partitions_def map_entry_snoc_fresh image_comp comp_def keysOf_snoc
          partitionOf_snoc_same partitionOf_snoc_other cong: map_cong)
qed

lemma groupTrades_partitions:
  assumes "\<forall>t\<in>set w. marketId t \<notin> set objectPrototypeKeys"
  shows "groupTrades [] w = Inr (partitions w)"
  using assms
proof (induction w rule: rev_induct)
  case Nil
  show ?case by (simp add: partitions_def keysOf_def)
next
  case (snoc t w)
  then show ?case
    by (simp add: groupTrades_snoc groupStep_partitions)
qed

lemma groupStep_TypeError:
  "marketId t \<in> set objectPrototypeKeys \<Longrightarrow> groupStep gs t = Inl TypeError"
  by (simp add: groupStep_def)

lemma groupTrades_TypeError:
  assumes "\<exists>t\<in>set w. marketId t \<in> set objectPrototypeKeys"
  shows "groupTrades gs w = Inl TypeError"
  using assms
proof (induction w arbitrary: gs)
  case Nil
  then show ?case by simp
next
  case (Cons t w)
  show ?case
  proof (cases "groupStep gs t")
    case (Inl e)
    then show ?thesis by (cases e) simp
  next
    case (Inr gs')
    then have "marketId t \<notin> set objectPrototypeKeys"
      using groupStep_TypeError [of t gs] by auto
    with Cons.prems have "\<exists>t\<in>set w. marketId t \<in> set objectPrototypeKeys" by auto
    with Cons.IH Inr show ?thesis by simp
  qed
qed

lemma set_objectEntries [simp]: "set (objectEntries obj) = set obj"
  by (auto simp: objectEntries_def)

lemma distinct_objectEntries:
  assumes "distinct (map fst obj)"
  shows "distinct (map fst (objectEntries obj))"
proof -
  have d: "distinct obj" and i: "inj_on fst (set obj)"
    using assms by (simp_all add: distinct_map)
  have "distinct (objectEntries obj)"
    using d by (auto simp: objectEntries_def)
  moreover have "inj_on fst (set (objectEntries obj))"
    using i by simp
  ultimately show ?thesis by (simp add: distinct_map)
qed

lemma distinct_partitions: "distinct (map fst (partitions w))"
  by (simp add: partitions_def comp_def)

lemma analyzeMarket_upd_other:
  "k \<noteq> fst e \<Longrightarrow> analyzeMarket now (cds(k \<mapsto> v)) e = analyzeMarket now cds e"
  by (simp add: analyzeMarket_def coolingDown_def Let_def)

lemma analyzeAll_eq:
  assumes "distinct (map fst es)"
  shows "analyzeAll now es cds sigs =
           (stamp now (fst ` {e \<in> set es. analyzeMarket now cds e \<noteq> None}) cds,
            sigs @ List.map_filter (analyzeMarket now cds) es)"
  using assms
proof (induction es arbitrary: cds sigs)
  case Nil
  show ?case by (simp add: stamp_def)
next
  case (Cons e es)
  show ?case
  proof (cases "analyzeMarket now cds e")
    case None
    then have "{x \<in> set (e # es). analyzeMarket now cds x \<noteq> None}
             = {x \<in> set es. analyzeMarket now cds x \<noteq> None}"
      by auto
    with Cons None show ?thesis by simp
  next
    case (Some s)
    have same: "\<And>x. x \<in> set es \<Longrightarrow>
        analyzeMarket now (cds(fst e \<mapsto> now)) x = analyzeMarket now cds x"
      using Cons.prems by (intro analyzeMarket_upd_other) auto
    then have mf: "List.map_filter (analyzeMarket now (cds(fst e \<mapsto> now))) es
                 = List.map_filter (analyzeMarket now cds) es"
      by (simp add: List.map_filter_def cong: map_cong filter_cong)
    have st: "{x \<in> set es. analyzeMarket now (cds(fst e \<mapsto> now)) x \<noteq> None}
            = {x \<in> set es. analyzeMarket now cds x \<noteq> None}"
      using same by auto
    have ins: "{x \<in> set (e # es). analyzeMarket now cds x \<noteq> None}
             = insert e {x \<in> set es. analyzeMarket now cds x \<noteq> None}"
      using Some by auto
    have sp: "\<And>ks. stamp now ks (cds(fst e \<mapsto> now)) = stamp now (insert (fst e) ks) cds"
      by (auto simp: stamp_def)
    have "analyzeAll now (e # es) cds sigs
            = analyzeAll now es (cds(fst e \<mapsto> now)) (sigs @ [s])"
      using Some by simp
    also have "\<dots> = (stamp now (fst ` {x \<in> set es.
                    analyzeMarket now (cds(fst e \<mapsto> now)) x \<noteq> None}) (cds(fst e \<mapsto> now)),
                  (sigs @ [s]) @ List.map_filter (analyzeMarket now (cds(fst e \<mapsto> now))) es)"
      using Cons.prems by (intro Cons.IH) simp
    also have "\<dots> = (stamp now (fst ` {x \<in> set (e # es). analyzeMarket now cds x \<noteq> None}) cds,
                  sigs @ List.map_filter (analyzeMarket now cds) (e # es))"
      unfolding mf st sp ins using Some by simp
    finally show ?thesis .
  qed
qed

section \<open>What a call of \<open>checkSignals\<close> returns\<close>

text \<open>
  The signals of a call are those of the markets of the window, each analysed against the
  cooldowns the call started with, in the order of \<open>Object.entries\<close>; a market has at
  most one signal, decided by its aggregates.
\<close>

lemma checkSignals_eq:
  assumes "\<forall>t\<in>set (tradeWindow d). marketId t \<notin> set objectPrototypeKeys"
  shows "checkSignals now d =
           Inr (List.map_filter (analyzeMarket now (alertCooldowns d))
                  (objectEntries (partitions (tradeWindow d))),
                d\<lparr>alertCooldowns :=
                    stamp now (fst ` {e \<in> set (partitions (tradeWindow d)).
                                 analyzeMarket now (alertCooldowns d) e \<noteq> None})
                      (alertCooldowns d)\<rparr>)"
proof -
  have "distinct (map fst (objectEntries (partitions (tradeWindow d))))"
    by (rule distinct_objectEntries) (rule distinct_partitions)
  then show ?thesis
    using assms
    by (simp add: checkSignals_def groupTrades_partitions analyzeAll_eq)
qed

lemma checkSignals_TypeError:
  assumes "\<exists>t\<in>set (tradeWindow d). marketId t \<in> set objectPrototypeKeys"
  shows "checkSignals now d = Inl TypeError"
  using assms by (simp add: checkSignals_def groupTrades_TypeError)

lemma checkSignals_Inr_keys:
  assumes "checkSignals now d = Inr r"
  shows "\<forall>t\<in>set (tradeWindow d). marketId t \<notin> set objectPrototypeKeys"
  using assms checkSignals_TypeError [of d now] by auto

lemma analyzeMarket_marketId:
  "analyzeMarket now cds e = Some s \<Longrightarrow> sig_marketId s = fst e"
  by (auto simp: analyzeMarket_def Let_def split: if_splits option.splits)

lemma map_filter_no_key:
  "m \<notin> fst ` set es \<Longrightarrow>
   filter (\<lambda>s. sig_marketId s = m) (List.map_filter (analyzeMarket now cds) es) = []"
proof (induction es)
  case Nil
  show ?case by simp
next
  case (Cons e es)
  then show ?case
    by (auto split: option.splits dest: analyzeMarket_marketId)
qed

lemma map_filter_for_key:
  assumes "distinct (map fst es)" and "(m, g) \<in> set es"
  shows "filter (\<lambda>s. sig_marketId s = m) (List.map_filter (analyzeMarket now cds) es) =
           (case analyzeMarket now cds (m, g) of None \<Rightarrow> [] | Some s \<Rightarrow> [s])"
  using assms
proof (induction es)
  case Nil
  then show ?case by simp
next
  case (Cons e es)
  show ?case
  proof (cases "e = (m, g)")
    case True
    then have "m \<notin> fst ` set es" using Cons.prems by auto
    then show ?thesis
      using True map_filter_no_key [of m es now cds]
      by (auto split: option.splits dest: analyzeMarket_marketId)
  next
    case False
    then have in_es: "(m, g) \<in> set es" using Cons.prems by auto
    then have "fst e \<noteq> m" using Cons.prems by (auto simp: image_iff)
    then show ?thesis
      using Cons in_es
      by (auto split: option.splits dest: analyzeMarket_marketId)
  qed
qed

lemma signals_for_market:
  assumes "checkSignals now d = Inr (sigs, d')"
    and "m \<in> marketId ` set (tradeWindow d)"
  shows "filter (\<lambda>s. sig_marketId s = m) sigs =
           (case analyzeMarket now (alertCooldowns d) (m, partitionOf m (tradeWindow d)) of
              None \<Rightarrow> [] | Some s \<Rightarrow> [s])"
proof -
  have keys: "\<forall>t\<in>set (tradeWindow d). marketId t \<notin> set objectPrototypeKeys"
    using assms(1) by (rule checkSignals_Inr_keys)
  have sigs: "sigs = List.map_filter (analyzeMarket now (alertCooldowns d))
                  (objectEntries (partitions (tradeWindow d)))"
    using assms(1) checkSignals_eq [OF keys, of now] by simp
  have "(m, partitionOf m (tradeWindow d)) \<in> set (objectEntries (partitions (tradeWindow d)))"
    using assms(2) by (auto simp: partitions_def)
  moreover have "distinct (map fst (objectEntries (partitions (tradeWindow d))))"
    by (rule distinct_objectEntries) (rule distinct_partitions)
  ultimately show ?thesis
    unfolding sigs by (rule map_filter_for_key [rotated])
qed

lemma partitionOf_aggregates:
  "sumUSD (buys (partitionOf m w)) = buyVolOf m w"
  "sumUSD (sells (partitionOf m w)) = sellVolOf m w"
  "card (set (map user (buys (partitionOf m w)))) = uniqueBuyersOf m w"
  by (simp_all add: partitionOf_def buyVolOf_def sellVolOf_def uniqueBuyersOf_def)

lemma analyzeMarket_partition:
  "analyzeMarket now cds (m, partitionOf m w) =
     (if coolingDown now cds m then None
      else if ratioSkip (sellVolOf m w) (ratioOf (buyVolOf m w) (sellVolOf m w)) then None
      else case alertTypeOf (uniqueBuyersOf m w) (buyVolOf m w) of
             None \<Rightarrow> None
           | Some ty \<Rightarrow>
               Some \<lparr>sig_type = ty,
                     sig_marketName = marketName (meta (partitionOf m w)),
                     sig_outcome = outcome (meta (partitionOf m w)),
                     totalVol = buyVolOf m w,
                     uniqueWallets = uniqueBuyersOf m w,
                     ratio = ratioOf (buyVolOf m w) (sellVolOf m w),
                     sig_marketId = m\<rparr>)"
  by (simp add: analyzeMarket_def Let_def partitionOf_aggregates del: set_map)

lemma marketTypes:
  assumes "checkSignals now d = Inr (sigs, d')"
    and "m \<in> marketId ` set (tradeWindow d)"
    and "\<not> coolingDown now (alertCooldowns d) m"
  shows "map sig_type (filter (\<lambda>s. sig_marketId s = m) sigs) =
           (if ratioSkip (sellVolOf m (tradeWindow d))
                 (ratioOf (buyVolOf m (tradeWindow d)) (sellVolOf m (tradeWindow d)))
            then []
            else case alertTypeOf (uniqueBuyersOf m (tradeWindow d)) (buyVolOf m (tradeWindow d)) of
                   None \<Rightarrow> [] | Some ty \<Rightarrow> [ty])"
  using assms(3)
  by (simp add: signals_for_market [OF assms(1,2)] analyzeMarket_partition split: option.splits)

lemma signal_fields:
  assumes "checkSignals now d = Inr (sigs, d')"
    and "m \<in> marketId ` set (tradeWindow d)"
    and "s \<in> set sigs" and "sig_marketId s = m"
  shows "ratio s = ratioOf (buyVolOf m (tradeWindow d)) (sellVolOf m (tradeWindow d))"
    and "totalVol s = buyVolOf m (tradeWindow d)"
    and "uniqueWallets s = uniqueBuyersOf m (tradeWindow d)"
proof -
  have "s \<in> set (filter (\<lambda>s. sig_marketId s = m) sigs)"
    using assms(3,4) by simp
  then have "analyzeMarket now (alertCooldowns d) (m, partitionOf m (tradeWindow d)) = Some s"
    unfolding signals_for_market [OF assms(1,2)] by (auto split: option.splits)
  then show "ratio s = ratioOf (buyVolOf m (tradeWindow d)) (sellVolOf m (tradeWindow d))"
    and "totalVol s = buyVolOf m (tradeWindow d)"
    and "uniqueWallets s = uniqueBuyersOf m (tradeWindow d)"
    by (auto simp: analyzeMarket_partition split: if_splits option.splits)
qed

lemma set_map_filter: "set (List.map_filter f xs) = {y. \<exists>x\<in>set xs. f x = Some y}"
  by (induction xs) (auto split: option.splits)

lemma checkSignals_sound:
  assumes "checkSignals now d = Inr (sigs, d')"
  shows "set sigs = {s. \<exists>e\<in>set (partitions (tradeWindow d)).
                      analyzeMarket now (alertCooldowns d) e = Some s}"
    and "alertCooldowns d' = stamp now (sig_marketId ` set sigs) (alertCooldowns d)"
    and "tradeWindow d' = tradeWindow d"
proof -
  have keys: "\<forall>t\<in>set (tradeWindow d). marketId t \<notin> set objectPrototypeKeys"
    using assms by (rule checkSignals_Inr_keys)
  note eq = checkSignals_eq [OF keys, of now]
  have sigs: "sigs = List.map_filter (analyzeMarket now (alertCooldowns d))
                  (objectEntries (partitions (tradeWindow d)))"
    using assms eq by simp
  show s: "set sigs = {s. \<exists>e\<in>set (partitions (tradeWindow d)).
                      analyzeMarket now (alertCooldowns d) e = Some s}"
    unfolding sigs by (simp add: set_map_filter)
  have "fst ` {e \<in> set (partitions (tradeWindow d)).
                 analyzeMarket now (alertCooldowns d) e \<noteq> None} = sig_marketId ` set sigs"
    unfolding s by (force simp: image_iff dest: analyzeMarket_marketId)
  then show "alertCooldowns d' = stamp now (sig_marketId ` set sigs) (alertCooldowns d)"
    using assms eq by auto
  show "tradeWindow d' = tradeWindow d"
    using assms eq by auto
qed

lemma signal_ids:
  assumes "checkSignals now d = Inr (sigs, d')" and "s \<in> set sigs"
  shows "sig_marketId s \<in> marketId ` set (tradeWindow d)"
proof -
  from assms obtain e where e: "e \<in> set (partitions (tradeWindow d))"
    and a: "analyzeMarket now (alertCooldowns d) e = Some s"
    unfolding checkSignals_sound(1) [OF assms(1)] by auto
  from a have "sig_marketId s = fst e" by (rule analyzeMarket_marketId)
  with e show ?thesis by (auto simp: partitions_def)
qed

lemma keysOf_one_market:
  assumes "\<forall>t\<in>set w. marketId t = m" and "w \<noteq> []"
  shows "keysOf w = [m]"
  using assms
proof (induction w rule: rev_induct)
  case Nil
  then show ?case by simp
next
  case (snoc t w)
  show ?case
  proof (cases "w = []")
    case True
    with snoc.prems show ?thesis by (simp add: keysOf_def)
  next
    case False
    then obtain x where x: "x \<in> set w" by (cases w) auto
    with snoc.prems have "marketId t = marketId x" by simp
    with x have "marketId t \<in> marketId ` set w" by (rule rev_image_eqI)
    with snoc False show ?thesis by (simp add: keysOf_snoc)
  qed
qed

lemma objectEntries_single: "objectEntries [e] = [e]"
  by (simp add: objectEntries_def)

lemma checkSignals_one_market:
  assumes "\<forall>t\<in>set (tradeWindow d). marketId t = m" and "tradeWindow d \<noteq> []"
    and "m \<notin> set objectPrototypeKeys"
  shows "checkSignals now d =
           (case analyzeMarket now (alertCooldowns d) (m, partitionOf m (tradeWindow d)) of
              None \<Rightarrow> Inr ([], d)
            | Some s \<Rightarrow> Inr ([s], d\<lparr>alertCooldowns := (alertCooldowns d)(m \<mapsto> now)\<rparr>))"
proof -
  have "\<forall>t\<in>set (tradeWindow d). marketId t \<notin> set objectPrototypeKeys"
    using assms(1,3) by auto
  then have "groupTrades [] (tradeWindow d) = Inr [(m, partitionOf m (tradeWindow d))]"
    by (simp add: groupTrades_partitions partitions_def keysOf_one_market [OF assms(1,2)])
  then show ?thesis
    by (simp add: checkSignals_def objectEntries_single split: option.splits)
qed

section \<open>The rules on the example windows\<close>

text \<open>The calls on the example detectors, evaluated step by step.\<close>

lemmas rule_simps = coolingDown_def ratioSkip_def ratioOf_def alertTypeOf_def js_gt_def js_eq_def

lemma market_501: "''501'' \<notin> set objectPrototypeKeys"
  by (simp add: objectPrototypeKeys_def)

lemma example_keys:
  "\<forall>t\<in>set (exampleWindow x). marketId t \<notin> set objectPrototypeKeys"
  by (simp add: exampleWindow_def exampleTrade_def objectPrototypeKeys_def)

lemma example_partitions:
  "partitions (exampleWindow x) = [(''501'', partitionOf ''501'' (exampleWindow x))]"
  by (simp add: partitions_def keysOf_def exampleWindow_def exampleTrade_def)

lemma example_aggregates:
  "buyVolOf ''501'' (exampleWindow x) = roundDouble (7000 + x)"
  "sellVolOf ''501'' (exampleWindow x) = Fin 0"
  "uniqueBuyersOf ''501'' (exampleWindow x) = 3"
  "marketName (meta (partitionOf ''501'' (exampleWindow x))) = ''Will it rain?''"
  "outcome (meta (partitionOf ''501'' (exampleWindow x))) = ''Yes''"
  by (simp_all add: buyVolOf_def sellVolOf_def uniqueBuyersOf_def sumUSD_def partitionOf_def
      exampleWindow_def exampleTrade_def List.card_set del: set_map)

lemma example_call:
  "checkSignals T (exampleDetector x) =
     (if js_gt (roundDouble (7000 + x)) (Fin 10000)
      then Inr ([\<lparr>sig_type = ''WOLF_PACK'', sig_marketName = ''Will it rain?'',
                  sig_outcome = ''Yes'', totalVol = roundDouble (7000 + x), uniqueWallets = 3,
                  ratio = roundDouble (7000 + x), sig_marketId = ''501''\<rparr>],
                exampleDetector x\<lparr>alertCooldowns := [''501'' \<mapsto> T]\<rparr>)
      else Inr ([], exampleDetector x))"
  using js_lt_trans [of "Fin 10000" "Fin 15000" "roundDouble (7000 + x)"]
  by (simp add: checkSignals_def exampleDetector_def groupTrades_partitions example_keys
      example_partitions objectEntries_single analyzeMarket_partition example_aggregates
      coolingDown_def ratioSkip_def ratioOf_def alertTypeOf_def js_gt_def js_eq_def)

lemma example_calls:
  "checkSignals T (exampleDetector 3001) =
     Inr ([\<lparr>sig_type = ''WOLF_PACK'', sig_marketName = ''Will it rain?'',
            sig_outcome = ''Yes'', totalVol = Fin 10001, uniqueWallets = 3,
            ratio = Fin 10001, sig_marketId = ''501''\<rparr>],
          exampleDetector 3001\<lparr>alertCooldowns := [''501'' \<mapsto> T]\<rparr>)"
  "checkSignals T (exampleDetector 3000) = Inr ([], exampleDetector 3000)"
  by (simp_all add: example_call js_gt_def)

lemma example_one_market:
  "\<forall>t\<in>set (tradeWindow (exampleDetector x)). marketId t = ''501''"
  "tradeWindow (exampleDetector x) \<noteq> []"
  by (simp_all add: exampleDetector_def exampleWindow_def exampleTrade_def)

lemma example_in_window:
  "''501'' \<in> marketId ` set (tradeWindow (exampleDetector x))"
  "''501'' \<in> marketId ` set (tradeWindow (exampleSingle x))"
  "''501'' \<in> marketId ` set (tradeWindow (exampleMixed b s))"
  by (simp_all add: exampleDetector_def exampleWindow_def exampleSingle_def exampleMixed_def
      exampleTrade_def)

lemma example_not_cooling:
  "\<not> coolingDown T (alertCooldowns (exampleDetector x)) m"
  "\<not> coolingDown T (alertCooldowns (exampleSingle x)) m"
  "\<not> coolingDown T (alertCooldowns (exampleMixed b s)) m"
  by (simp_all add: coolingDown_def exampleDetector_def exampleSingle_def exampleMixed_def)

lemma detector_aggregates:
  "buyVolOf ''501'' (tradeWindow (exampleDetector x)) = roundDouble (7000 + x)"
  "sellVolOf ''501'' (tradeWindow (exampleDetector x)) = Fin 0"
  "uniqueBuyersOf ''501'' (tradeWindow (exampleDetector x)) = 3"
  by (simp_all add: exampleDetector_def example_aggregates)

lemma single_one_market:
  "\<forall>t\<in>set (tradeWindow (exampleSingle x)). marketId t = ''501''"
  "tradeWindow (exampleSingle x) \<noteq> []"
  by (simp_all add: exampleSingle_def exampleTrade_def)

lemma single_aggregates:
  "buyVolOf ''501'' (tradeWindow (exampleSingle x)) = roundDouble x"
  "sellVolOf ''501'' (tradeWindow (exampleSingle x)) = Fin 0"
  "uniqueBuyersOf ''501'' (tradeWindow (exampleSingle x)) = 1"
  "marketName (meta (partitionOf ''501'' (tradeWindow (exampleSingle x)))) = ''Will it rain?''"
  "outcome (meta (partitionOf ''501'' (tradeWindow (exampleSingle x)))) = ''Yes''"
  "alertCooldowns (exampleSingle x) = Map.empty"
  by (simp_all add: buyVolOf_def sellVolOf_def uniqueBuyersOf_def sumUSD_def partitionOf_def
      exampleSingle_def exampleTrade_def List.card_set del: set_map)

lemma single_call:
  "checkSignals T (exampleSingle x) =
     (if js_gt (roundDouble x) (Fin 15000)
      then Inr ([\<lparr>sig_type = ''VOLUME_SURGE'', sig_marketName = ''Will it rain?'',
                  sig_outcome = ''Yes'', totalVol = roundDouble x, uniqueWallets = 1,
                  ratio = roundDouble x, sig_marketId = ''501''\<rparr>],
                exampleSingle x\<lparr>alertCooldowns := [''501'' \<mapsto> T]\<rparr>)
      else Inr ([], exampleSingle x))"
  by (simp add: checkSignals_one_market [OF single_one_market market_501]
      analyzeMarket_partition single_aggregates
      coolingDown_def ratioSkip_def ratioOf_def alertTypeOf_def js_gt_def js_eq_def)

lemma single_calls:
  "checkSignals T (exampleSingle 15001) =
     Inr ([\<lparr>sig_type = ''VOLUME_SURGE'', sig_marketName = ''Will it rain?'',
            sig_outcome = ''Yes'', totalVol = Fin 15001, uniqueWallets = 1,
            ratio = Fin 15001, sig_marketId = ''501''\<rparr>],
          exampleSingle 15001\<lparr>alertCooldowns := [''501'' \<mapsto> T]\<rparr>)"
  by (simp add: single_call js_gt_def)

lemma mixed_one_market:
  "\<forall>t\<in>set (tradeWindow (exampleMixed b s)). marketId t = ''501''"
  "tradeWindow (exampleMixed b s) \<noteq> []"
  by (simp_all add: exampleMixed_def exampleTrade_def)

lemma mixed_aggregates:
  "buyVolOf ''501'' (tradeWindow (exampleMixed b s)) = roundDouble (200 + b)"
  "sellVolOf ''501'' (tradeWindow (exampleMixed b s)) = roundDouble s"
  "uniqueBuyersOf ''501'' (tradeWindow (exampleMixed b s)) = 3"
  "marketName (meta (partitionOf ''501'' (tradeWindow (exampleMixed b s)))) = ''Will it rain?''"
  "outcome (meta (partitionOf ''501'' (tradeWindow (exampleMixed b s)))) = ''Yes''"
  "alertCooldowns (exampleMixed b s) = Map.empty"
  by (simp_all add: buyVolOf_def sellVolOf_def uniqueBuyersOf_def sumUSD_def partitionOf_def
      exampleMixed_def exampleTrade_def List.card_set del: set_map)

lemma mixed_call:
  "checkSignals T (exampleMixed b s) =
     (case analyzeMarket T Map.empty (''501'', partitionOf ''501'' (tradeWindow (exampleMixed b s))) of
              None \<Rightarrow> Inr ([], exampleMixed b s)
            | Some x \<Rightarrow> Inr ([x], exampleMixed b s\<lparr>alertCooldowns := [''501'' \<mapsto> T]\<rparr>))"
  by (simp add: checkSignals_one_market [OF mixed_one_market market_501] mixed_aggregates
      split: option.splits)

lemma mixed_calls:
  "checkSignals T (exampleMixed 99 100) = Inr ([], exampleMixed 99 100)"
  "checkSignals T (exampleMixed 100 100) = Inr ([], exampleMixed 100 100)"
  "checkSignals T (exampleMixed 14799 5000) = Inr ([], exampleMixed 14799 5000)"
  "checkSignals T (exampleMixed 14800 5000) =
     Inr ([\<lparr>sig_type = ''WOLF_PACK'', sig_marketName = ''Will it rain?'',
            sig_outcome = ''Yes'', totalVol = Fin 15000, uniqueWallets = 3,
            ratio = Fin 3, sig_marketId = ''501''\<rparr>],
          exampleMixed 14800 5000\<lparr>alertCooldowns := [''501'' \<mapsto> T]\<rparr>)"
  by (simp_all add: mixed_call analyzeMarket_partition mixed_aggregates rule_simps
      quotient_299_100 quotient_14999_5000)

lemma cents_one_market:
  "\<forall>t\<in>set (tradeWindow exampleCents). marketId t = ''501''"
  "tradeWindow exampleCents \<noteq> []"
  "\<forall>t\<in>set (tradeWindow exampleQuotient). marketId t = ''501''"
  "tradeWindow exampleQuotient \<noteq> []"
  by (simp_all add: exampleCents_def exampleQuotient_def exampleAmount_def exampleTrade_def)

lemma cents_in_window:
  "''501'' \<in> marketId ` set (tradeWindow exampleCents)"
  "''501'' \<in> marketId ` set (tradeWindow exampleQuotient)"
  by (simp_all add: exampleCents_def exampleQuotient_def exampleAmount_def exampleTrade_def)

lemma cents_not_cooling:
  "\<not> coolingDown T (alertCooldowns exampleCents) m"
  "\<not> coolingDown T (alertCooldowns exampleQuotient) m"
  by (simp_all add: coolingDown_def exampleCents_def exampleQuotient_def)

lemma cents_aggregates:
  "buyVolOf ''501'' (tradeWindow exampleCents) = Fin 10000"
  "sellVolOf ''501'' (tradeWindow exampleCents) = Fin 0"
  "uniqueBuyersOf ''501'' (tradeWindow exampleCents) = 3"
  "alertCooldowns exampleCents = Map.empty"
  unfolding exampleCents_def cents_8008_76 cents_661_73 cents_1329_51
  by (simp_all add: buyVolOf_def sellVolOf_def uniqueBuyersOf_def sumUSD_def
      exampleAmount_def exampleTrade_def List.card_set cents_sum_1 cents_sum_2 cents_sum_3
      del: set_map js_add.simps)

lemma cents_call:
  "checkSignals T exampleCents = Inr ([], exampleCents)"
  by (simp add: checkSignals_one_market [OF cents_one_market(1,2) market_501]
      analyzeMarket_partition cents_aggregates rule_simps)

lemma quotient_aggregates:
  "buyVolOf ''501'' (tradeWindow exampleQuotient) = Fin (8246419671692083 / 549755813888)"
  "sellVolOf ''501'' (tradeWindow exampleQuotient) = Fin (5497613114461389 / 1099511627776)"
  "uniqueBuyersOf ''501'' (tradeWindow exampleQuotient) = 1"
  "marketName (meta (partitionOf ''501'' (tradeWindow exampleQuotient))) = ''Will it rain?''"
  "outcome (meta (partitionOf ''501'' (tradeWindow exampleQuotient))) = ''Yes''"
  "alertCooldowns exampleQuotient = Map.empty"
  unfolding exampleQuotient_def cents_15000_15 cents_5000_05
  by (simp_all add: buyVolOf_def sellVolOf_def uniqueBuyersOf_def sumUSD_def partitionOf_def
      exampleAmount_def exampleTrade_def List.card_set cents_sum_4 cents_sum_5
      del: set_map js_add.simps)

lemma quotient_call:
  "checkSignals T exampleQuotient =
     Inr ([\<lparr>sig_type = ''VOLUME_SURGE'', sig_marketName = ''Will it rain?'',
            sig_outcome = ''Yes'', totalVol = Fin (8246419671692083 / 549755813888),
            uniqueWallets = 1, ratio = Fin 3, sig_marketId = ''501''\<rparr>],
          exampleQuotient\<lparr>alertCooldowns := [''501'' \<mapsto> T]\<rparr>)"
  by (simp add: checkSignals_one_market [OF cents_one_market(3,4) market_501]
      analyzeMarket_partition quotient_aggregates rule_simps cents_quotient
      del: js_div.simps)

section \<open>The sliding window\<close>

lemma age_at_most:
  fixes x :: trade
  assumes "js_gt (timestamp x) (num_of_int (now - 60000))"
  shows "js_le (tradeAge now x) (Fin 60000)"
proof (cases "timestamp x")
  case NaN
  with assms show ?thesis by (simp add: js_gt_def num_of_int_def)
next
  case NegInf
  with assms show ?thesis by (simp add: js_gt_def num_of_int_def)
next
  case (Fin a)
  with assms have "of_int now - a \<le> (of_int 60000 :: rat)"
    by (simp add: js_gt_def num_of_int_def)
  then have "js_le (roundDouble (of_int now - a)) (Fin (of_int 60000))"
    by (rule roundDouble_le_int) simp_all
  with Fin show ?thesis by (simp add: tradeAge_def js_sub_def num_of_int_def)
next
  case PosInf
  then show ?thesis by (simp add: tradeAge_def js_sub_def num_of_int_def js_le_def)
qed

lemma age_at_cutoff:
  fixes x :: trade
  assumes "timestamp x = num_of_int (now - 60000)"
  shows "tradeAge now x = Fin 60000"
  using assms by (simp add: tradeAge_def js_sub_def num_of_int_def)

lemma fresh_integer:
  "js_gt (num_of_int k) (num_of_int (now - 60000)) = (now - k < 60000)"
  by (auto simp: js_gt_def num_of_int_def)

text \<open>
  Claim C2. A call of \<open>addTrade\<close> appends the trade and keeps exactly the trades with
  \<open>timestamp > now - 60000\<close> at the one clock reading of the call; it leaves the cooldowns
  alone. So after the call every retained trade has an age \<open>now - timestamp\<close> of at most
  60000 ms, which is the invariant of the claim; the detector \<open>d\<close> before the call is
  arbitrary, which covers every sequence of calls. But the call does not remove exactly
  the trades whose age exceeds 60000 ms: a trade whose timestamp is the cutoff has an age
  of exactly 60000 ms, which does not exceed 60000 ms, and is removed. For a trade whose
  timestamp is an integer \<open>k\<close>, as \<open>getTime()\<close> yields them, the trade is retained exactly
  when \<open>now - k < 60000\<close>. The comment on the filter says that it prunes the trades older
  than 60 seconds.
\<close>

theorem addTrade_window:
  "tradeWindow (addTrade now t d) =
     filter (\<lambda>x. js_gt (timestamp x) (num_of_int (now - 60000))) (tradeWindow d @ [t])
   \<and> alertCooldowns (addTrade now t d) = alertCooldowns d
   \<and> (\<forall>x\<in>set (tradeWindow (addTrade now t d)). js_le (tradeAge now x) (Fin 60000))
   \<and> (\<forall>x\<in>set (tradeWindow d @ [t]).
         timestamp x = num_of_int (now - 60000) \<longrightarrow>
           tradeAge now x = Fin 60000 \<and> \<not> js_gt (tradeAge now x) (Fin 60000)
           \<and> x \<notin> set (tradeWindow (addTrade now t d)))
   \<and> (\<forall>x\<in>set (tradeWindow d @ [t]). \<forall>k.
         timestamp x = num_of_int k \<longrightarrow>
           (x \<in> set (tradeWindow (addTrade now t d)) \<longleftrightarrow> now - k < 60000))"
proof -
  let ?fresh = "\<lambda>x. js_gt (timestamp x) (num_of_int (now - 60000))"
  have w: "tradeWindow (addTrade now t d) = filter ?fresh (tradeWindow d @ [t])"
    by (simp add: addTrade_def Let_def)
  have c: "alertCooldowns (addTrade now t d) = alertCooldowns d"
    by (simp add: addTrade_def Let_def)
  have r: "\<forall>x\<in>set (tradeWindow (addTrade now t d)). js_le (tradeAge now x) (Fin 60000)"
    unfolding w by (auto intro: age_at_most)
  have e: "\<forall>x\<in>set (tradeWindow d @ [t]).
         timestamp x = num_of_int (now - 60000) \<longrightarrow>
           tradeAge now x = Fin 60000 \<and> \<not> js_gt (tradeAge now x) (Fin 60000)
           \<and> x \<notin> set (tradeWindow (addTrade now t d))"
  proof (intro ballI impI)
    fix x :: trade
    assume x: "timestamp x = num_of_int (now - 60000)"
    then have a: "tradeAge now x = Fin 60000" by (rule age_at_cutoff)
    have "\<not> ?fresh x" using x by (simp add: js_gt_def num_of_int_def)
    then have "x \<notin> set (tradeWindow (addTrade now t d))" unfolding w by auto
    with a show "tradeAge now x = Fin 60000 \<and> \<not> js_gt (tradeAge now x) (Fin 60000)
           \<and> x \<notin> set (tradeWindow (addTrade now t d))"
      by (simp add: js_gt_def)
  qed
  have i: "\<forall>x\<in>set (tradeWindow d @ [t]). \<forall>k.
         timestamp x = num_of_int k \<longrightarrow>
           (x \<in> set (tradeWindow (addTrade now t d)) \<longleftrightarrow> now - k < 60000)"
    unfolding w by (auto simp: fresh_integer)
  from w c r e i show ?thesis by blast
qed

text \<open>
  A trade that is 30 seconds old joins a window of two. The same trade, handed to
  \<open>addTrade\<close> when its age is exactly 60 seconds, is dropped by that call.
\<close>

theorem addTrade_window_witness:
  "tradeWindow (addTrade 1700000030000 (exampleTrade ''501'' ''0xc'' ''Buy'' 3001)
      \<lparr>tradeWindow = [exampleTrade ''501'' ''0xa'' ''Buy'' 4000, exampleTrade ''501'' ''0xb'' ''Buy'' 3000],
       alertCooldowns = Map.empty\<rparr>) = exampleWindow 3001
   \<and> tradeAge 1700000030000 (exampleTrade ''501'' ''0xc'' ''Buy'' 3001) = Fin 30000
   \<and> tradeWindow (addTrade 1700000060000 (exampleTrade ''501'' ''0xc'' ''Buy'' 3001) constructor) = []
   \<and> tradeAge 1700000060000 (exampleTrade ''501'' ''0xc'' ''Buy'' 3001) = Fin 60000
   \<and> \<not> js_gt (tradeAge 1700000060000 (exampleTrade ''501'' ''0xc'' ''Buy'' 3001)) (Fin 60000)"
  using addTrade_window [of 1700000030000 "exampleTrade ''501'' ''0xc'' ''Buy'' 3001"
      "\<lparr>tradeWindow = [exampleTrade ''501'' ''0xa'' ''Buy'' 4000, exampleTrade ''501'' ''0xb'' ''Buy'' 3000],
       alertCooldowns = Map.empty\<rparr>"]
    addTrade_window [of 1700000060000 "exampleTrade ''501'' ''0xc'' ''Buy'' 3001" constructor]
  by (simp add: tradeAge_def js_sub_def num_of_int_def exampleTrade_def exampleWindow_def
      constructor_def js_gt_def)

section \<open>Classification\<close>

text \<open>
  Claim C1. For a market of the window that is not cooling down, when the call returns:
  if the ratio test lets the partition pass, the signals of that market are one
  \<open>WOLF_PACK\<close> when there are at least three distinct buyers and the buy volume is above
  10000, else one \<open>VOLUME_SURGE\<close> when the buy volume is above 15000, else none. The buy
  volume is the sum that \<open>reduce\<close> forms: the amounts added in doubles, from the left. With no
  sell volume, three buyers and 10001 dollars give \<open>WOLF_PACK\<close>, three buyers and exactly
  10000 dollars give nothing, and one buyer with 15001 dollars gives \<open>VOLUME_SURGE\<close>.
\<close>

theorem classification_priority:
  assumes "checkSignals now d = Inr (sigs, d')"
    and "m \<in> marketId ` set (tradeWindow d)"
    and "\<not> coolingDown now (alertCooldowns d) m"
  shows "(\<not> ratioSkip (sellVolOf m (tradeWindow d))
             (ratioOf (buyVolOf m (tradeWindow d)) (sellVolOf m (tradeWindow d)))
          \<longrightarrow> map sig_type (filter (\<lambda>s. sig_marketId s = m) sigs) =
                (if uniqueBuyersOf m (tradeWindow d) \<ge> 3
                    \<and> js_gt (buyVolOf m (tradeWindow d)) (Fin 10000)
                 then [''WOLF_PACK'']
                 else if js_gt (buyVolOf m (tradeWindow d)) (Fin 15000)
                 then [''VOLUME_SURGE'']
                 else []))
       \<and> (sellVolOf m (tradeWindow d) = Fin 0 \<and> uniqueBuyersOf m (tradeWindow d) = 3
            \<and> buyVolOf m (tradeWindow d) = Fin 10001
          \<longrightarrow> map sig_type (filter (\<lambda>s. sig_marketId s = m) sigs) = [''WOLF_PACK''])
       \<and> (sellVolOf m (tradeWindow d) = Fin 0 \<and> uniqueBuyersOf m (tradeWindow d) = 3
            \<and> buyVolOf m (tradeWindow d) = Fin 10000
          \<longrightarrow> filter (\<lambda>s. sig_marketId s = m) sigs = [])
       \<and> (sellVolOf m (tradeWindow d) = Fin 0 \<and> uniqueBuyersOf m (tradeWindow d) = 1
            \<and> buyVolOf m (tradeWindow d) = Fin 15001
          \<longrightarrow> map sig_type (filter (\<lambda>s. sig_marketId s = m) sigs) = [''VOLUME_SURGE''])"
proof -
  note types = marketTypes [OF assms]
  have general: "\<not> ratioSkip (sellVolOf m (tradeWindow d))
             (ratioOf (buyVolOf m (tradeWindow d)) (sellVolOf m (tradeWindow d)))
          \<longrightarrow> map sig_type (filter (\<lambda>s. sig_marketId s = m) sigs) =
                (if uniqueBuyersOf m (tradeWindow d) \<ge> 3
                    \<and> js_gt (buyVolOf m (tradeWindow d)) (Fin 10000)
                 then [''WOLF_PACK'']
                 else if js_gt (buyVolOf m (tradeWindow d)) (Fin 15000)
                 then [''VOLUME_SURGE'']
                 else [])"
    by (simp add: types alertTypeOf_def)
  have wolf: "sellVolOf m (tradeWindow d) = Fin 0 \<and> uniqueBuyersOf m (tradeWindow d) = 3
            \<and> buyVolOf m (tradeWindow d) = Fin 10001
          \<longrightarrow> map sig_type (filter (\<lambda>s. sig_marketId s = m) sigs) = [''WOLF_PACK'']"
    by (simp add: types alertTypeOf_def ratioSkip_def js_gt_def)
  have "sellVolOf m (tradeWindow d) = Fin 0 \<and> uniqueBuyersOf m (tradeWindow d) = 3
            \<and> buyVolOf m (tradeWindow d) = Fin 10000
          \<longrightarrow> map sig_type (filter (\<lambda>s. sig_marketId s = m) sigs) = []"
    by (simp add: types alertTypeOf_def ratioSkip_def js_gt_def)
  then have boundary: "sellVolOf m (tradeWindow d) = Fin 0 \<and> uniqueBuyersOf m (tradeWindow d) = 3
            \<and> buyVolOf m (tradeWindow d) = Fin 10000
          \<longrightarrow> filter (\<lambda>s. sig_marketId s = m) sigs = []"
    by simp
  have surge: "sellVolOf m (tradeWindow d) = Fin 0 \<and> uniqueBuyersOf m (tradeWindow d) = 1
            \<and> buyVolOf m (tradeWindow d) = Fin 15001
          \<longrightarrow> map sig_type (filter (\<lambda>s. sig_marketId s = m) sigs) = [''VOLUME_SURGE'']"
    by (simp add: types alertTypeOf_def ratioSkip_def js_gt_def)
  from general wolf boundary surge show ?thesis by blast
qed

text \<open>
  Three wallets buying 10001 dollars in all raise a \<open>WOLF_PACK\<close>, three wallets buying
  exactly 10000 dollars raise nothing, and one wallet buying 15001 dollars raises a
  \<open>VOLUME_SURGE\<close>. Three wallets buying 8008.76, 661.73 and 1329.51 dollars have a buy
  volume of exactly 10000, the sum being formed as the code forms it, and raise nothing.
\<close>

theorem classification_priority_witness:
  "checkSignals 1700000030000 (exampleDetector 3001) =
     Inr ([\<lparr>sig_type = ''WOLF_PACK'', sig_marketName = ''Will it rain?'',
            sig_outcome = ''Yes'', totalVol = Fin 10001, uniqueWallets = 3,
            ratio = Fin 10001, sig_marketId = ''501''\<rparr>],
          exampleDetector 3001\<lparr>alertCooldowns := [''501'' \<mapsto> 1700000030000]\<rparr>)
   \<and> checkSignals 1700000030000 (exampleDetector 3000) = Inr ([], exampleDetector 3000)
   \<and> checkSignals 1700000030000 (exampleSingle 15001) =
     Inr ([\<lparr>sig_type = ''VOLUME_SURGE'', sig_marketName = ''Will it rain?'',
            sig_outcome = ''Yes'', totalVol = Fin 15001, uniqueWallets = 1,
            ratio = Fin 15001, sig_marketId = ''501''\<rparr>],
          exampleSingle 15001\<lparr>alertCooldowns := [''501'' \<mapsto> 1700000030000]\<rparr>)
   \<and> buyVolOf ''501'' (tradeWindow exampleCents) = Fin 10000
   \<and> uniqueBuyersOf ''501'' (tradeWindow exampleCents) = 3
   \<and> checkSignals 1700000030000 exampleCents = Inr ([], exampleCents)"
proof -
  let ?T = "1700000030000 :: int"
  obtain s1 d1 where c1: "checkSignals ?T (exampleDetector 3001) = Inr (s1, d1)"
    by (simp add: example_calls)
  obtain s2 d2 where c2: "checkSignals ?T (exampleDetector 3000) = Inr (s2, d2)"
    by (simp add: example_calls)
  obtain s3 d3 where c3: "checkSignals ?T (exampleSingle 15001) = Inr (s3, d3)"
    by (simp add: single_calls)
  have "map sig_type (filter (\<lambda>s. sig_marketId s = ''501'') s1) = [''WOLF_PACK'']"
    using classification_priority [OF c1 example_in_window(1) example_not_cooling(1)]
    by (simp add: detector_aggregates)
  moreover have "filter (\<lambda>s. sig_marketId s = ''501'') s2 = []"
    using classification_priority [OF c2 example_in_window(1) example_not_cooling(1)]
    by (simp add: detector_aggregates)
  moreover have "map sig_type (filter (\<lambda>s. sig_marketId s = ''501'') s3) = [''VOLUME_SURGE'']"
    using classification_priority [OF c3 example_in_window(2) example_not_cooling(2)]
    by (simp add: single_aggregates)
  moreover obtain s4 d4 where c4: "checkSignals ?T exampleCents = Inr (s4, d4)"
    by (simp add: cents_call)
  have "filter (\<lambda>s. sig_marketId s = ''501'') s4 = []"
    using classification_priority [OF c4 cents_in_window(1) cents_not_cooling(1)]
    by (simp add: cents_aggregates)
  ultimately show ?thesis
    by (simp add: example_calls single_calls cents_call cents_aggregates)
qed

section \<open>The ratio filter\<close>

text \<open>
  Claim C4. For a market of the window that is not cooling down, when the call returns:
  every signal of the market carries the ratio \<open>buyVol\<close> when \<open>sellVol === 0\<close> and
  \<open>buyVol / sellVol\<close> otherwise; the market has no signal, whatever its volumes, when
  \<open>sellVol > 0\<close> and the ratio is below 3; otherwise its signals are those of the
  classification. The quotient is the one of the language, the double nearest to the exact
  quotient. With a sell volume of 100, a buy volume of 299 has the ratio 2.99, that is the
  double that this literal denotes, which is below 3, and no signal; a buy volume of 300
  has the ratio 3 and passes the filter. A buy volume of 15000.15 against a sell volume of
  5000.05 has the ratio 3 and passes the filter too.
\<close>

theorem ratio_filter:
  assumes "checkSignals now d = Inr (sigs, d')"
    and "m \<in> marketId ` set (tradeWindow d)"
    and "\<not> coolingDown now (alertCooldowns d) m"
  shows "(let buyVol = buyVolOf m (tradeWindow d);
              sellVol = sellVolOf m (tradeWindow d);
              r = (if js_eq sellVol (Fin 0) then buyVol else js_div buyVol sellVol);
              emitted = filter (\<lambda>s. sig_marketId s = m) sigs
          in (\<forall>s\<in>set emitted. ratio s = r)
           \<and> (js_gt sellVol (Fin 0) \<and> js_lt r (Fin 3) \<longrightarrow> emitted = [])
           \<and> (\<not> (js_gt sellVol (Fin 0) \<and> js_lt r (Fin 3)) \<longrightarrow>
                map sig_type emitted =
                  (case alertTypeOf (uniqueBuyersOf m (tradeWindow d)) buyVol of
                     None \<Rightarrow> [] | Some ty \<Rightarrow> [ty]))
           \<and> (sellVol = Fin 100 \<and> buyVol = Fin 299 \<longrightarrow>
                r = roundDouble (299 / 100)
                \<and> r = Fin (1683220360729723 / 562949953421312)
                \<and> js_lt r (Fin 3) \<and> emitted = [])
           \<and> (sellVol = Fin 100 \<and> buyVol = Fin 300 \<longrightarrow>
                r = Fin 3 \<and> \<not> (js_gt sellVol (Fin 0) \<and> js_lt r (Fin 3)))
           \<and> (sellVol = roundDouble (500005 / 100) \<and> buyVol = roundDouble (1500015 / 100) \<longrightarrow>
                r = Fin 3 \<and> \<not> (js_gt sellVol (Fin 0) \<and> js_lt r (Fin 3))))"
proof -
  let ?b = "buyVolOf m (tradeWindow d)" and ?s = "sellVolOf m (tradeWindow d)"
  let ?r = "if js_eq ?s (Fin 0) then ?b else js_div ?b ?s"
  let ?e = "filter (\<lambda>s. sig_marketId s = m) sigs"
  note types = marketTypes [OF assms]
  have r: "ratioOf ?b ?s = ?r" by (simp add: ratioOf_def)
  have a: "\<forall>s\<in>set ?e. ratio s = ?r"
    using signal_fields(1) [OF assms(1,2)] by (simp add: r)
  have "js_gt ?s (Fin 0) \<and> js_lt ?r (Fin 3) \<longrightarrow> map sig_type ?e = []"
    using types by (simp add: ratioSkip_def r)
  then have b: "js_gt ?s (Fin 0) \<and> js_lt ?r (Fin 3) \<longrightarrow> ?e = []" by simp
  have c: "\<not> (js_gt ?s (Fin 0) \<and> js_lt ?r (Fin 3)) \<longrightarrow>
           map sig_type ?e =
             (case alertTypeOf (uniqueBuyersOf m (tradeWindow d)) ?b of
                None \<Rightarrow> [] | Some ty \<Rightarrow> [ty])"
    using types by (simp add: ratioSkip_def r)
  have d: "?s = Fin 100 \<and> ?b = Fin 299 \<longrightarrow>
             ?r = roundDouble (299 / 100) \<and> ?r = Fin (1683220360729723 / 562949953421312)
             \<and> js_lt ?r (Fin 3) \<and> ?e = []"
  proof
    assume v: "?s = Fin 100 \<and> ?b = Fin 299"
    then have r1: "?r = roundDouble (299 / 100)" by (simp add: js_eq_def)
    then have r2: "?r = Fin (1683220360729723 / 562949953421312)"
      by (simp only: quotient_299_100)
    then have r3: "js_lt ?r (Fin 3)" by simp
    moreover from v have "js_gt ?s (Fin 0)" by (simp add: js_gt_def)
    ultimately have "?e = []" using b by simp
    with r1 r2 r3
    show "?r = roundDouble (299 / 100) \<and> ?r = Fin (1683220360729723 / 562949953421312)
             \<and> js_lt ?r (Fin 3) \<and> ?e = []"
      by simp
  qed
  have e: "?s = Fin 100 \<and> ?b = Fin 300 \<longrightarrow>
            ?r = Fin 3 \<and> \<not> (js_gt ?s (Fin 0) \<and> js_lt ?r (Fin 3))"
    by (simp add: js_eq_def)
  have f: "?s = roundDouble (500005 / 100) \<and> ?b = roundDouble (1500015 / 100) \<longrightarrow>
            ?r = Fin 3 \<and> \<not> (js_gt ?s (Fin 0) \<and> js_lt ?r (Fin 3))"
  proof
    assume "?s = roundDouble (500005 / 100) \<and> ?b = roundDouble (1500015 / 100)"
    then have v: "?s = Fin (5497613114461389 / 1099511627776)"
      "?b = Fin (8246419671692083 / 549755813888)"
      by (simp_all only: cents_5000_05 cents_15000_15)
    have "?r = Fin 3" unfolding v by (simp add: js_eq_def cents_quotient del: js_div.simps)
    then show "?r = Fin 3 \<and> \<not> (js_gt ?s (Fin 0) \<and> js_lt ?r (Fin 3))" by simp
  qed
  from a b c d e f show ?thesis unfolding Let_def by blast
qed

text \<open>
  Buys of 299 against sells of 100 are filtered; buys of 14999 against sells of 5000 are
  filtered although three wallets bought more than 10000 dollars; buys of 15000 against
  sells of 5000 have the ratio 3 and raise a \<open>WOLF_PACK\<close>.
\<close>

theorem ratio_filter_witness:
  "checkSignals 1700000030000 (exampleMixed 99 100) = Inr ([], exampleMixed 99 100)
   \<and> buyVolOf ''501'' (tradeWindow (exampleMixed 99 100)) = Fin 299
   \<and> sellVolOf ''501'' (tradeWindow (exampleMixed 99 100)) = Fin 100
   \<and> checkSignals 1700000030000 (exampleMixed 14799 5000) = Inr ([], exampleMixed 14799 5000)
   \<and> buyVolOf ''501'' (tradeWindow (exampleMixed 14799 5000)) = Fin 14999
   \<and> sellVolOf ''501'' (tradeWindow (exampleMixed 14799 5000)) = Fin 5000
   \<and> uniqueBuyersOf ''501'' (tradeWindow (exampleMixed 14799 5000)) = 3
   \<and> checkSignals 1700000030000 (exampleMixed 14800 5000) =
     Inr ([\<lparr>sig_type = ''WOLF_PACK'', sig_marketName = ''Will it rain?'',
            sig_outcome = ''Yes'', totalVol = Fin 15000, uniqueWallets = 3,
            ratio = Fin 3, sig_marketId = ''501''\<rparr>],
          exampleMixed 14800 5000\<lparr>alertCooldowns := [''501'' \<mapsto> 1700000030000]\<rparr>)
   \<and> buyVolOf ''501'' (tradeWindow exampleQuotient) = roundDouble (1500015 / 100)
   \<and> sellVolOf ''501'' (tradeWindow exampleQuotient) = roundDouble (500005 / 100)
   \<and> checkSignals 1700000030000 exampleQuotient =
     Inr ([\<lparr>sig_type = ''VOLUME_SURGE'', sig_marketName = ''Will it rain?'',
            sig_outcome = ''Yes'', totalVol = roundDouble (1500015 / 100),
            uniqueWallets = 1, ratio = Fin 3, sig_marketId = ''501''\<rparr>],
          exampleQuotient\<lparr>alertCooldowns := [''501'' \<mapsto> 1700000030000]\<rparr>)"
proof -
  let ?T = "1700000030000 :: int"
  obtain s1 d1 where c1: "checkSignals ?T (exampleMixed 99 100) = Inr (s1, d1)"
    by (simp add: mixed_calls)
  obtain s2 d2 where c2: "checkSignals ?T (exampleMixed 14799 5000) = Inr (s2, d2)"
    by (simp add: mixed_calls)
  obtain s3 d3 where c3: "checkSignals ?T (exampleMixed 14800 5000) = Inr (s3, d3)"
    by (simp add: mixed_calls)
  obtain s4 d4 where c4: "checkSignals ?T exampleQuotient = Inr (s4, d4)"
    by (simp add: quotient_call)
  note r1 = ratio_filter [OF c1 example_in_window(3) example_not_cooling(3)]
  note r2 = ratio_filter [OF c2 example_in_window(3) example_not_cooling(3)]
  note r3 = ratio_filter [OF c3 example_in_window(3) example_not_cooling(3)]
  note r4 = ratio_filter [OF c4 cents_in_window(2) cents_not_cooling(2)]
  have v1: "buyVolOf ''501'' (tradeWindow (exampleMixed 99 100)) = Fin 299"
    "sellVolOf ''501'' (tradeWindow (exampleMixed 99 100)) = Fin 100"
    by (simp_all add: mixed_aggregates)
  have v2: "buyVolOf ''501'' (tradeWindow (exampleMixed 14799 5000)) = Fin 14999"
    "sellVolOf ''501'' (tradeWindow (exampleMixed 14799 5000)) = Fin 5000"
    by (simp_all add: mixed_aggregates)
  have v3: "buyVolOf ''501'' (tradeWindow (exampleMixed 14800 5000)) = Fin 15000"
    "sellVolOf ''501'' (tradeWindow (exampleMixed 14800 5000)) = Fin 5000"
    by (simp_all add: mixed_aggregates)
  have v4: "buyVolOf ''501'' (tradeWindow exampleQuotient) = roundDouble (1500015 / 100)"
    "sellVolOf ''501'' (tradeWindow exampleQuotient) = roundDouble (500005 / 100)"
    by (simp_all only: quotient_aggregates cents_15000_15 cents_5000_05)
  have "filter (\<lambda>s. sig_marketId s = ''501'') s1 = []"
    using r1 unfolding Let_def v1 by blast
  moreover have "js_lt (js_div (Fin 14999) (Fin 5000)) (Fin 3)"
    by (simp add: quotient_14999_5000)
  then have "filter (\<lambda>s. sig_marketId s = ''501'') s2 = []"
    using r2 unfolding Let_def v2 by (simp add: js_gt_def js_eq_def)
  moreover have "\<forall>s\<in>set (filter (\<lambda>s. sig_marketId s = ''501'') s3). ratio s = Fin 3"
    using r3 unfolding Let_def v3 by (simp add: js_eq_def)
  moreover have "\<forall>s\<in>set (filter (\<lambda>s. sig_marketId s = ''501'') s4). ratio s = Fin 3"
    using r4 unfolding Let_def v4 by (simp add: js_eq_def)
  moreover have "checkSignals ?T exampleQuotient =
     Inr ([\<lparr>sig_type = ''VOLUME_SURGE'', sig_marketName = ''Will it rain?'',
            sig_outcome = ''Yes'', totalVol = roundDouble (1500015 / 100),
            uniqueWallets = 1, ratio = Fin 3, sig_marketId = ''501''\<rparr>],
          exampleQuotient\<lparr>alertCooldowns := [''501'' \<mapsto> ?T]\<rparr>)"
    by (simp only: quotient_call cents_15000_15)
  ultimately show ?thesis
    using v4 by (simp add: mixed_calls mixed_aggregates)
qed

section \<open>Signals and cooldown stamps\<close>

text \<open>
  A call stamps exactly the markets it signals, a market that is cooling down is neither
  signalled nor stamped, and both facts carry over to sequences of calls.
\<close>

lemma analyzeMarket_cooling:
  "coolingDown now cds (fst e) \<Longrightarrow> analyzeMarket now cds e = None"
  by (simp add: analyzeMarket_def Let_def)

lemma checkSignals_cooling:
  assumes "checkSignals now d = Inr (sigs, d')"
    and "coolingDown now (alertCooldowns d) M"
  shows "\<forall>s\<in>set sigs. sig_marketId s \<noteq> M"
    and "alertCooldowns d' M = alertCooldowns d M"
proof -
  show n: "\<forall>s\<in>set sigs. sig_marketId s \<noteq> M"
  proof
    fix s assume "s \<in> set sigs"
    then obtain e where e: "analyzeMarket now (alertCooldowns d) e = Some s"
      unfolding checkSignals_sound(1) [OF assms(1)] by auto
    then have "sig_marketId s = fst e" by (rule analyzeMarket_marketId)
    with e assms(2) show "sig_marketId s \<noteq> M"
      using analyzeMarket_cooling [of now "alertCooldowns d" e] by auto
  qed
  then have "M \<notin> sig_marketId ` set sigs" by auto
  then show "alertCooldowns d' M = alertCooldowns d M"
    unfolding checkSignals_sound(2) [OF assms(1)] by (simp add: stamp_def)
qed

lemma checkSignals_stamps:
  assumes "checkSignals now d = Inr (sigs, d')" and "s \<in> set sigs"
  shows "alertCooldowns d' (sig_marketId s) = Some now"
  using assms(2) unfolding checkSignals_sound(2) [OF assms(1)] by (simp add: stamp_def)

lemma checkSignals_quiet:
  assumes "checkSignals now d = Inr (sigs, d')" and "\<forall>s\<in>set sigs. sig_marketId s \<noteq> M"
  shows "alertCooldowns d' M = alertCooldowns d M"
proof -
  from assms(2) have "M \<notin> sig_marketId ` set sigs" by auto
  then show ?thesis
    unfolding checkSignals_sound(2) [OF assms(1)] by (simp add: stamp_def)
qed

lemma step_cooling:
  assumes "alertCooldowns d M = Some T" and "T \<noteq> 0"
    and "\<forall>now. c = CheckSignals now \<longrightarrow> now - T < 300000"
  shows "(\<forall>s\<in>set (fst (step c d)). sig_marketId s \<noteq> M)
       \<and> alertCooldowns (snd (step c d)) M = Some T"
proof (cases c)
  case (AddTrade now t)
  with assms(1) show ?thesis by (simp add: addTrade_def Let_def)
next
  case (CheckSignals now)
  with assms have cool: "coolingDown now (alertCooldowns d) M"
    by (simp add: coolingDown_def)
  show ?thesis
  proof (cases "checkSignals now d")
    case (Inl e)
    with CheckSignals assms(1) show ?thesis by simp
  next
    case (Inr r)
    obtain sigs d' where r: "r = (sigs, d')" by (cases r)
    from checkSignals_cooling [OF Inr [unfolded r] cool] CheckSignals Inr r assms(1)
    show ?thesis by simp
  qed
qed

lemma run_cooling:
  assumes "alertCooldowns d M = Some T" and "T \<noteq> 0"
    and "\<forall>c\<in>set cs. \<forall>now. c = CheckSignals now \<longrightarrow> now - T < 300000"
  shows "(\<forall>s\<in>set (fst (run cs d)). sig_marketId s \<noteq> M)
       \<and> alertCooldowns (snd (run cs d)) M = Some T"
  using assms
proof (induction cs arbitrary: d)
  case Nil
  then show ?case by simp
next
  case (Cons c cs)
  obtain s1 d1 where s: "step c d = (s1, d1)" by (cases "step c d")
  obtain s2 d2 where r: "run cs d1 = (s2, d2)" by (cases "run cs d1")
  from Cons.prems have "\<forall>now. c = CheckSignals now \<longrightarrow> now - T < 300000" by simp
  from step_cooling [OF Cons.prems(1,2) this] s
  have a: "\<forall>s\<in>set s1. sig_marketId s \<noteq> M" and b: "alertCooldowns d1 M = Some T"
    by simp_all
  from Cons.prems(3) have "\<forall>c\<in>set cs. \<forall>now. c = CheckSignals now \<longrightarrow> now - T < 300000"
    by simp
  from Cons.IH [OF b Cons.prems(2) this] r
  have "\<forall>s\<in>set s2. sig_marketId s \<noteq> M" and "alertCooldowns d2 M = Some T"
    by simp_all
  with a s r show ?case by auto
qed

lemma step_absent:
  assumes "alertCooldowns d M = None" and "\<forall>s\<in>set (fst (step c d)). sig_marketId s \<noteq> M"
  shows "alertCooldowns (snd (step c d)) M = None"
proof (cases c)
  case (AddTrade now t)
  with assms(1) show ?thesis by (simp add: addTrade_def Let_def)
next
  case (CheckSignals now)
  show ?thesis
  proof (cases "checkSignals now d")
    case (Inl e)
    with CheckSignals assms(1) show ?thesis by simp
  next
    case (Inr r)
    obtain sigs d' where r: "r = (sigs, d')" by (cases r)
    from assms(2) CheckSignals Inr r have "\<forall>s\<in>set sigs. sig_marketId s \<noteq> M" by simp
    from checkSignals_quiet [OF Inr [unfolded r] this] CheckSignals Inr r assms(1)
    show ?thesis by simp
  qed
qed

lemma run_absent:
  assumes "alertCooldowns d M = None" and "\<forall>s\<in>set (fst (run cs d)). sig_marketId s \<noteq> M"
  shows "alertCooldowns (snd (run cs d)) M = None"
  using assms
proof (induction cs arbitrary: d)
  case Nil
  then show ?case by simp
next
  case (Cons c cs)
  obtain s1 d1 where s: "step c d = (s1, d1)" by (cases "step c d")
  obtain s2 d2 where r: "run cs d1 = (s2, d2)" by (cases "run cs d1")
  from Cons.prems(2) s r have a: "\<forall>s\<in>set s1. sig_marketId s \<noteq> M"
    and b: "\<forall>s\<in>set s2. sig_marketId s \<noteq> M" by auto
  from step_absent [OF Cons.prems(1), of c] a s have "alertCooldowns d1 M = None" by simp
  from Cons.IH [OF this] b r have "alertCooldowns d2 M = None" by simp
  with s r show ?case by simp
qed

lemma analyzeMarket_cong_key:
  "cds (fst e) = cds' (fst e) \<Longrightarrow> analyzeMarket now cds e = analyzeMarket now cds' e"
  by (simp add: analyzeMarket_def coolingDown_def Let_def)

lemma analyzeMarket_None_later:
  assumes "analyzeMarket now cds e = None"
    and "coolingDown now cds (fst e) \<longrightarrow> coolingDown now' cds (fst e)"
  shows "analyzeMarket now' cds e = None"
  using assms by (auto simp: analyzeMarket_def Let_def split: if_splits option.splits)

lemma map_filter_all_None:
  "\<forall>x\<in>set xs. f x = None \<Longrightarrow> List.map_filter f xs = []"
  by (induction xs) auto

lemma partitions_key_unique:
  "e \<in> set (partitions w) \<Longrightarrow> e' \<in> set (partitions w) \<Longrightarrow> fst e = fst e' \<Longrightarrow> e = e'"
  by (auto simp: partitions_def)

lemma stamp_empty [simp]: "stamp now {} cds = cds"
  by (simp add: stamp_def)

lemma alerted_one_market:
  "\<forall>t\<in>set (tradeWindow (exampleAlerted T)). marketId t = ''501''"
  "tradeWindow (exampleAlerted T) \<noteq> []"
  by (simp_all add: exampleAlerted_def example_one_market)

lemma alerted_aggregates:
  "buyVolOf ''501'' (tradeWindow (exampleAlerted T)) = Fin 10001"
  "sellVolOf ''501'' (tradeWindow (exampleAlerted T)) = Fin 0"
  "uniqueBuyersOf ''501'' (tradeWindow (exampleAlerted T)) = 3"
  "alertCooldowns (exampleAlerted T) = [''501'' \<mapsto> T]"
  by (simp_all add: exampleAlerted_def detector_aggregates)

lemma alerted_call:
  "checkSignals now (exampleAlerted T) =
     (if T \<noteq> 0 \<and> now - T < 300000 then Inr ([], exampleAlerted T)
      else Inr ([\<lparr>sig_type = ''WOLF_PACK'',
                  sig_marketName = marketName (meta (partitionOf ''501'' (tradeWindow (exampleAlerted T)))),
                  sig_outcome = outcome (meta (partitionOf ''501'' (tradeWindow (exampleAlerted T)))),
                  totalVol = Fin 10001, uniqueWallets = 3,
                  ratio = Fin 10001, sig_marketId = ''501''\<rparr>],
                exampleAlerted now))"
  by (simp add: checkSignals_one_market [OF alerted_one_market market_501]
      analyzeMarket_partition alerted_aggregates rule_simps)
     (simp add: exampleAlerted_def)

lemma first_call_alerts:
  "checkSignals T (exampleDetector 3001) =
     Inr ([\<lparr>sig_type = ''WOLF_PACK'', sig_marketName = ''Will it rain?'',
            sig_outcome = ''Yes'', totalVol = Fin 10001, uniqueWallets = 3,
            ratio = Fin 10001, sig_marketId = ''501''\<rparr>], exampleAlerted T)"
  by (simp add: example_calls exampleAlerted_def)

section \<open>The cooldown\<close>

text \<open>
  Claim C3. Let \<open>checkSignals\<close> emit a signal for a market at the clock reading \<open>T\<close>,
  other than 0. The market is then stamped with \<open>T\<close>, and through every later sequence of
  calls whose \<open>checkSignals\<close> calls read a clock with \<open>now - T < 300000\<close> no signal is
  emitted for that market and its stamp stays \<open>T\<close>. A market is absent from the cooldown
  map of a new detector and stays absent as long as no signal is emitted for it. On the
  example detector, alerted at \<open>T\<close>: the call at \<open>T + 299999\<close> emits nothing and the
  call at \<open>T + 300001\<close> emits the \<open>WOLF_PACK\<close> signal again.
\<close>

theorem cooldown_suppression:
  assumes "checkSignals T d = Inr (sigs, d1)" and "s \<in> set sigs" and "T \<noteq> 0"
    and "\<forall>c\<in>set cs. \<forall>now. c = CheckSignals now \<longrightarrow> now - T < 300000"
  shows "alertCooldowns d1 (sig_marketId s) = Some T
       \<and> (\<forall>s'\<in>set (fst (run cs d1)). sig_marketId s' \<noteq> sig_marketId s)
       \<and> alertCooldowns (snd (run cs d1)) (sig_marketId s) = Some T
       \<and> alertCooldowns constructor M = None
       \<and> ((\<forall>s'\<in>set (fst (run cs0 constructor)). sig_marketId s' \<noteq> M)
            \<longrightarrow> alertCooldowns (snd (run cs0 constructor)) M = None)
       \<and> fst (step (CheckSignals (T + 299999)) (exampleAlerted T)) = []
       \<and> map sig_type (fst (step (CheckSignals (T + 300001)) (exampleAlerted T)))
           = [''WOLF_PACK'']"
proof -
  have st: "alertCooldowns d1 (sig_marketId s) = Some T"
    using assms(1,2) by (rule checkSignals_stamps)
  have e: "alertCooldowns constructor M = None"
    by (simp add: constructor_def)
  have x: "fst (step (CheckSignals (T + 299999)) (exampleAlerted T)) = []"
    using assms(3) by (simp add: alerted_call)
  have y: "map sig_type (fst (step (CheckSignals (T + 300001)) (exampleAlerted T)))
           = [''WOLF_PACK'']"
    by (simp add: alerted_call)
  from run_cooling [OF st assms(3,4)] st e run_absent [OF e, of cs0] x y
  show ?thesis by blast
qed

text \<open>
  The example detector alerts at 1700000030000. A further large buy and a call 299999 ms
  after the alert emit nothing; a call 300001 ms after the alert emits for market 501.
\<close>

theorem cooldown_suppression_witness:
  "checkSignals 1700000030000 (exampleDetector 3001) =
     Inr ([\<lparr>sig_type = ''WOLF_PACK'', sig_marketName = ''Will it rain?'',
            sig_outcome = ''Yes'', totalVol = Fin 10001, uniqueWallets = 3,
            ratio = Fin 10001, sig_marketId = ''501''\<rparr>], exampleAlerted 1700000030000)
   \<and> run [AddTrade 1700000040000 (exampleTrade ''501'' ''0xe'' ''Buy'' 20000),
           CheckSignals 1700000329999] (exampleAlerted 1700000030000)
       = ([], (exampleAlerted 1700000030000)\<lparr>tradeWindow :=
                 exampleWindow 3001 @ [exampleTrade ''501'' ''0xe'' ''Buy'' 20000]\<rparr>)
   \<and> map sig_marketId (fst (run [CheckSignals 1700000330001] (exampleAlerted 1700000030000)))
       = [''501'']"
proof -
  let ?T = "1700000030000 :: int"
  let ?s = "\<lparr>sig_type = ''WOLF_PACK'', sig_marketName = ''Will it rain?'',
            sig_outcome = ''Yes'', totalVol = Fin 10001, uniqueWallets = 3,
            ratio = Fin 10001, sig_marketId = ''501''\<rparr>"
  let ?cs = "[AddTrade 1700000040000 (exampleTrade ''501'' ''0xe'' ''Buy'' 20000),
           CheckSignals 1700000329999]"
  have c: "checkSignals ?T (exampleDetector 3001) = Inr ([?s], exampleAlerted ?T)"
    by (rule first_call_alerts)
  have l: "\<forall>c\<in>set ?cs. \<forall>now. c = CheckSignals now \<longrightarrow> now - ?T < 300000"
    by simp
  have "\<forall>s'\<in>set (fst (run ?cs (exampleAlerted ?T))). sig_marketId s' \<noteq> ''501''"
    using cooldown_suppression [OF c _ _ l, of ?s] by simp
  moreover have "alertCooldowns (snd (run ?cs (exampleAlerted ?T))) ''501'' = Some ?T"
    using cooldown_suppression [OF c _ _ l, of ?s] by simp
  moreover have a: "addTrade 1700000040000 (exampleTrade ''501'' ''0xe'' ''Buy'' 20000)
                 (exampleAlerted ?T)
             = (exampleAlerted ?T)\<lparr>tradeWindow :=
                 exampleWindow 3001 @ [exampleTrade ''501'' ''0xe'' ''Buy'' 20000]\<rparr>"
    by (simp add: addTrade_def exampleAlerted_def exampleDetector_def exampleWindow_def
        exampleTrade_def js_gt_def num_of_int_def)
  moreover have "checkSignals 1700000329999 ((exampleAlerted ?T)\<lparr>tradeWindow :=
                 exampleWindow 3001 @ [exampleTrade ''501'' ''0xe'' ''Buy'' 20000]\<rparr>)
             = Inr ([], (exampleAlerted ?T)\<lparr>tradeWindow :=
                 exampleWindow 3001 @ [exampleTrade ''501'' ''0xe'' ''Buy'' 20000]\<rparr>)"
  proof -
    have "\<forall>t\<in>set (exampleWindow 3001 @ [exampleTrade ''501'' ''0xe'' ''Buy'' 20000]).
            marketId t = ''501''"
      by (simp add: exampleWindow_def exampleTrade_def)
    then show ?thesis
      by (subst checkSignals_one_market [where m = "''501''"])
         (simp_all add: market_501 analyzeMarket_cooling coolingDown_def alerted_aggregates)
  qed
  ultimately show ?thesis
    by (simp add: first_call_alerts alerted_call)
qed

section \<open>Repeated evaluation\<close>

text \<open>
  Claim C8. Let a call of \<open>checkSignals\<close> return at a clock reading other than 0, and let
  every cooldown that is active after it still be active at the second clock reading.
  Then a second call, with no \<open>addTrade\<close> in between, returns no signal and leaves the
  detector as it is; every market that the first call signalled carries the stamp of the
  first call. A stamp of 0 would be falsy in the cooldown test, hence the first
  hypothesis on the clock.
\<close>

theorem checkSignals_idempotent:
  assumes "checkSignals now1 d = Inr (sigs, d1)"
    and "now1 \<noteq> 0"
    and "\<forall>m. coolingDown now1 (alertCooldowns d1) m \<longrightarrow> coolingDown now2 (alertCooldowns d1) m"
  shows "checkSignals now2 d1 = Inr ([], d1)
       \<and> (\<forall>s\<in>set sigs. alertCooldowns d1 (sig_marketId s) = Some now1)"
proof -
  let ?w = "tradeWindow d" and ?cds = "alertCooldowns d" and ?cds1 = "alertCooldowns d1"
  note sound = checkSignals_sound [OF assms(1)]
  have keys: "\<forall>t\<in>set (tradeWindow d1). marketId t \<notin> set objectPrototypeKeys"
    using checkSignals_Inr_keys [OF assms(1)] by (simp add: sound(3))
  have none: "analyzeMarket now2 ?cds1 e = None" if e: "e \<in> set (partitions ?w)" for e
  proof (cases "analyzeMarket now1 ?cds e")
    case (Some s)
    with e have "s \<in> set sigs" unfolding sound(1) by auto
    then have "?cds1 (sig_marketId s) = Some now1"
      by (rule checkSignals_stamps [OF assms(1)])
    moreover have "sig_marketId s = fst e" using Some by (rule analyzeMarket_marketId)
    ultimately have "coolingDown now1 ?cds1 (fst e)"
      using assms(2) by (simp add: coolingDown_def)
    with assms(3) have "coolingDown now2 ?cds1 (fst e)" by simp
    then show ?thesis by (rule analyzeMarket_cooling)
  next
    case None
    have "fst e \<notin> sig_marketId ` set sigs"
    proof
      assume "fst e \<in> sig_marketId ` set sigs"
      then obtain s where s: "s \<in> set sigs" and id: "sig_marketId s = fst e" by auto
      from s obtain e' where e': "e' \<in> set (partitions ?w)"
        and a: "analyzeMarket now1 ?cds e' = Some s"
        unfolding sound(1) by auto
      from a have "sig_marketId s = fst e'" by (rule analyzeMarket_marketId)
      with id have "fst e = fst e'" by simp
      with e e' have "e = e'" by (rule partitions_key_unique)
      with a None show False by simp
    qed
    then have "?cds1 (fst e) = ?cds (fst e)"
      unfolding sound(2) by (simp add: stamp_def)
    then have "analyzeMarket now1 ?cds1 e = None"
      using None analyzeMarket_cong_key [of ?cds1 e ?cds now1] by simp
    moreover have "coolingDown now1 ?cds1 (fst e) \<longrightarrow> coolingDown now2 ?cds1 (fst e)"
      using assms(3) by simp
    ultimately show ?thesis by (rule analyzeMarket_None_later)
  qed
  have eq2: "checkSignals now2 d1 =
          Inr (List.map_filter (analyzeMarket now2 ?cds1) (objectEntries (partitions ?w)),
               d1\<lparr>alertCooldowns :=
                    stamp now2 (fst ` {e \<in> set (partitions ?w).
                                 analyzeMarket now2 ?cds1 e \<noteq> None}) ?cds1\<rparr>)"
    using checkSignals_eq [OF keys, of now2] by (simp add: sound(3))
  have mf: "List.map_filter (analyzeMarket now2 ?cds1) (objectEntries (partitions ?w)) = []"
    by (rule map_filter_all_None) (simp add: none)
  have em: "{e \<in> set (partitions ?w). analyzeMarket now2 ?cds1 e \<noteq> None} = {}"
    using none by auto
  have "checkSignals now2 d1 = Inr ([], d1)"
    unfolding eq2 mf em by simp
  moreover have "\<forall>s\<in>set sigs. alertCooldowns d1 (sig_marketId s) = Some now1"
    using checkSignals_stamps [OF assms(1)] by simp
  ultimately show ?thesis by simp
qed

text \<open>The example detector alerts, and a second call 15 seconds later returns nothing.\<close>

theorem checkSignals_idempotent_witness:
  "checkSignals 1700000030000 (exampleDetector 3001) =
     Inr ([\<lparr>sig_type = ''WOLF_PACK'', sig_marketName = ''Will it rain?'',
            sig_outcome = ''Yes'', totalVol = Fin 10001, uniqueWallets = 3,
            ratio = Fin 10001, sig_marketId = ''501''\<rparr>], exampleAlerted 1700000030000)
   \<and> checkSignals 1700000045000 (exampleAlerted 1700000030000)
       = Inr ([], exampleAlerted 1700000030000)
   \<and> alertCooldowns (exampleAlerted 1700000030000) ''501'' = Some 1700000030000"
proof -
  let ?T = "1700000030000 :: int"
  have c: "checkSignals ?T (exampleDetector 3001) =
     Inr ([\<lparr>sig_type = ''WOLF_PACK'', sig_marketName = ''Will it rain?'',
            sig_outcome = ''Yes'', totalVol = Fin 10001, uniqueWallets = 3,
            ratio = Fin 10001, sig_marketId = ''501''\<rparr>], exampleAlerted ?T)"
    by (rule first_call_alerts)
  have n: "?T \<noteq> 0" by simp
  have k: "\<forall>m. coolingDown ?T (alertCooldowns (exampleAlerted ?T)) m
             \<longrightarrow> coolingDown 1700000045000 (alertCooldowns (exampleAlerted ?T)) m"
    by (simp add: coolingDown_def alerted_aggregates)
  from checkSignals_idempotent [OF c n k] c show ?thesis by simp
qed

section \<open>Repeated ingestion\<close>

lemma count_list_filter: "P t \<Longrightarrow> count_list (filter P xs) t = count_list xs t"
  by (induction xs) auto

lemma sumUSD_snoc: "sumUSD (ts @ [t]) = js_add (sumUSD ts) (amountUSD t)"
  by (simp add: sumUSD_def)

lemma addTrade_fresh:
  assumes "js_gt (timestamp t) (num_of_int (now - 60000))"
  shows "tradeWindow (addTrade now t d) =
           filter (\<lambda>x. js_gt (timestamp x) (num_of_int (now - 60000))) (tradeWindow d) @ [t]"
  using assms by (simp add: addTrade_def Let_def)

lemma fresh_mono:
  assumes "js_gt ts (num_of_int (now2 - 60000))" and "now1 \<le> now2"
  shows "js_gt ts (num_of_int (now1 - 60000))"
  using assms by (cases ts) (auto simp: js_gt_def num_of_int_def)

text \<open>
  Claim C10. \<open>addTrade\<close> does not deduplicate. Adding a trade that is inside the window
  raises its number of copies in the window by one, so a trade already retained is there
  at least twice; each copy of a buy adds its amount to the buy volume of its market. The
  scanner builds the same trade from the same upstream record at every poll: polled at two
  clock readings while inside the window, the record is in the window twice and, from a
  new detector, the buy volume of its market is twice its amount.
\<close>

theorem addTrade_no_deduplication:
  assumes "js_gt (timestamp t) (num_of_int (now - 60000))"
  shows "count_list (tradeWindow (addTrade now t d)) t = count_list (tradeWindow d) t + 1
       \<and> (t \<in> set (tradeWindow d) \<longrightarrow> count_list (tradeWindow (addTrade now t d)) t \<ge> 2)
       \<and> (side t = ''Buy'' \<longrightarrow>
            buyVolOf (marketId t) (tradeWindow (addTrade now t d)) =
              js_add (buyVolOf (marketId t)
                        (filter (\<lambda>x. js_gt (timestamp x) (num_of_int (now - 60000)))
                           (tradeWindow d)))
                     (amountUSD t))
       \<and> (act_side a = Some ''BUY'' \<and> t = toTrade B mk a \<and> now1 \<le> now \<longrightarrow>
            count_list (tradeWindow (feedBrain B mk [(now, Some a)]
                                      (feedBrain B mk [(now1, Some a)] d))) t \<ge> 2
            \<and> buyVolOf (marketId t)
                 (tradeWindow (feedBrain B mk [(now, Some a)]
                                 (feedBrain B mk [(now1, Some a)] constructor)))
               = js_add (js_add (Fin 0) (amountUSD t)) (amountUSD t))"
proof -
  let ?fresh = "\<lambda>x. js_gt (timestamp x) (num_of_int (now - 60000))"
  have w: "tradeWindow (addTrade now t d) = filter ?fresh (tradeWindow d) @ [t]" for d
    using assms by (rule addTrade_fresh)
  have c: "count_list (tradeWindow (addTrade now t d)) t = count_list (tradeWindow d) t + 1" for d
    using assms by (simp add: w count_list_filter)
  have m: "t \<in> set (tradeWindow d) \<longrightarrow> count_list (tradeWindow (addTrade now t d)) t \<ge> 2"
    using c [of d] count_list_0_iff [of "tradeWindow d" t] by auto
  have v: "side t = ''Buy'' \<longrightarrow>
            buyVolOf (marketId t) (tradeWindow (addTrade now t d)) =
              js_add (buyVolOf (marketId t) (filter ?fresh (tradeWindow d))) (amountUSD t)"
    by (simp add: w buyVolOf_def sumUSD_snoc)
  have p: "act_side a = Some ''BUY'' \<and> t = toTrade B mk a \<and> now1 \<le> now \<longrightarrow>
            count_list (tradeWindow (feedBrain B mk [(now, Some a)]
                                      (feedBrain B mk [(now1, Some a)] d))) t \<ge> 2
            \<and> buyVolOf (marketId t)
                 (tradeWindow (feedBrain B mk [(now, Some a)]
                                 (feedBrain B mk [(now1, Some a)] constructor)))
               = js_add (js_add (Fin 0) (amountUSD t)) (amountUSD t)"
  proof (intro impI)
    assume h: "act_side a = Some ''BUY'' \<and> t = toTrade B mk a \<and> now1 \<le> now"
    then have f1: "js_gt (timestamp t) (num_of_int (now1 - 60000))"
      using assms fresh_mono by blast
    have s: "side t = ''Buy''" using h by (simp add: toTrade_def)
    have w1: "tradeWindow (addTrade now1 t d') =
                filter (\<lambda>x. js_gt (timestamp x) (num_of_int (now1 - 60000))) (tradeWindow d') @ [t]"
      for d' using f1 by (rule addTrade_fresh)
    have "count_list (tradeWindow (addTrade now t (addTrade now1 t d))) t
            = count_list (tradeWindow (addTrade now1 t d)) t + 1"
      by (rule c)
    moreover have "count_list (tradeWindow (addTrade now1 t d)) t \<ge> 1"
      by (simp add: w1)
    ultimately have two: "count_list (tradeWindow (addTrade now t (addTrade now1 t d))) t \<ge> 2"
      by simp
    have "tradeWindow (addTrade now t (addTrade now1 t constructor)) = [t, t]"
      using assms by (simp add: w w1 constructor_def)
    then have "buyVolOf (marketId t) (tradeWindow (addTrade now t (addTrade now1 t constructor)))
               = js_add (js_add (Fin 0) (amountUSD t)) (amountUSD t)"
      using s by (simp add: buyVolOf_def sumUSD_def)
    with two h show "count_list (tradeWindow (feedBrain B mk [(now, Some a)]
                                      (feedBrain B mk [(now1, Some a)] d))) t \<ge> 2
            \<and> buyVolOf (marketId t)
                 (tradeWindow (feedBrain B mk [(now, Some a)]
                                 (feedBrain B mk [(now1, Some a)] constructor)))
               = js_add (js_add (Fin 0) (amountUSD t)) (amountUSD t)"
      by simp
  qed
  from c [of d] m v p show ?thesis by blast
qed

lemma example_toTrade:
  "toTrade exampleBuiltins exampleMarket exampleActivity = exampleTrade ''501'' ''0xa'' ''Buy'' 6000"
  by (simp add: toTrade_def exampleMarket_def exampleActivity_def exampleTrade_def
      orString_def orOpt_def truthyStr_def)

lemma example_fresh:
  "now < 1700000060000 \<Longrightarrow>
   js_gt (timestamp (exampleTrade m u s x)) (num_of_int (now - 60000))"
  by (simp add: exampleTrade_def js_gt_def num_of_int_def)

lemma example_feed:
  assumes "now < 1700000060000"
    and "\<forall>x\<in>set w. js_gt (timestamp x) (num_of_int (now - 60000))"
  shows "fold (scanMarket exampleBuiltins)
           [(exampleMarket, DataList [(now, Some exampleActivity)])]
           \<lparr>tradeWindow = w, alertCooldowns = cds\<rparr>
         = \<lparr>tradeWindow = w @ [exampleTrade ''501'' ''0xa'' ''Buy'' 6000], alertCooldowns = cds\<rparr>"
proof -
  have "filter (\<lambda>x. js_gt (timestamp x) (num_of_int (now - 60000))) w = w"
    using assms(2) by (simp add: filter_id_conv)
  moreover have "act_side exampleActivity = Some ''BUY''"
    by (simp add: exampleActivity_def)
  ultimately show ?thesis
    using example_fresh [OF assms(1)]
    by (simp add: example_toTrade addTrade_def Let_def)
qed

lemma copies_aggregates:
  "buyVolOf ''501'' [exampleCopy] = Fin 6000"
  "buyVolOf ''501'' [exampleCopy, exampleCopy] = Fin 12000"
  "buyVolOf ''501'' [exampleCopy, exampleCopy, exampleCopy] = Fin 18000"
  "sellVolOf ''501'' (exampleCopy # w) = sellVolOf ''501'' w"
  "sellVolOf ''501'' [] = Fin 0"
  "uniqueBuyersOf ''501'' [exampleCopy] = 1"
  "uniqueBuyersOf ''501'' [exampleCopy, exampleCopy] = 1"
  "uniqueBuyersOf ''501'' [exampleCopy, exampleCopy, exampleCopy] = 1"
  "marketName (meta (partitionOf ''501'' (exampleCopy # w))) = ''Will it rain?''"
  "outcome (meta (partitionOf ''501'' (exampleCopy # w))) = ''Yes''"
  by (simp_all add: buyVolOf_def sellVolOf_def uniqueBuyersOf_def sumUSD_def partitionOf_def
      exampleCopy_def exampleTrade_def List.card_set del: set_map)

lemma copies_call:
  assumes "\<forall>t\<in>set w. t = exampleCopy"
  shows "checkSignals now \<lparr>tradeWindow = exampleCopy # w, alertCooldowns = Map.empty\<rparr> =
     (case analyzeMarket now Map.empty (''501'', partitionOf ''501'' (exampleCopy # w)) of
        None \<Rightarrow> Inr ([], \<lparr>tradeWindow = exampleCopy # w, alertCooldowns = Map.empty\<rparr>)
      | Some s \<Rightarrow> Inr ([s], \<lparr>tradeWindow = exampleCopy # w,
                              alertCooldowns = [''501'' \<mapsto> now]\<rparr>))"
proof -
  have "marketId exampleCopy = ''501''"
    by (simp add: exampleCopy_def exampleTrade_def)
  with assms
  have "\<forall>t\<in>set (tradeWindow \<lparr>tradeWindow = exampleCopy # w, alertCooldowns = Map.empty\<rparr>).
          marketId t = ''501''"
    by auto
  from checkSignals_one_market [OF this _ market_501, of now] show ?thesis
    by (simp split: option.splits)
qed

lemma copy_fresh:
  "cutoff < 1700000000000 \<Longrightarrow> js_gt (timestamp exampleCopy) (num_of_int cutoff)"
  "cutoff < 1700000000000 \<Longrightarrow> js_lt (num_of_int cutoff) (timestamp exampleCopy)"
  by (simp_all add: exampleCopy_def exampleTrade_def js_gt_def num_of_int_def)

lemma example_poll_unfold:
  assumes "now < 1700000060000"
    and "\<forall>x\<in>set w. js_gt (timestamp x) (num_of_int (now - 60000))"
  shows "examplePoll now \<lparr>tradeWindow = w, alertCooldowns = cds\<rparr> =
     (case checkSignals now \<lparr>tradeWindow = w @ [exampleCopy], alertCooldowns = cds\<rparr> of
        Inl e \<Rightarrow> ([ConsoleError ''Global Scan Error:''],
                  \<lparr>tradeWindow = w @ [exampleCopy], alertCooldowns = cds\<rparr>)
      | Inr (signals, d2) \<Rightarrow>
          (concat (map (\<lambda>sig. [SendMessage ''42'' (formatAlert exampleBuiltins sig)]) signals),
           d2))"
proof -
  have "fold (scanMarket exampleBuiltins)
           [(exampleMarket, DataList [(now, Some exampleActivity)])]
           \<lparr>tradeWindow = w, alertCooldowns = cds\<rparr>
         = \<lparr>tradeWindow = w @ [exampleCopy], alertCooldowns = cds\<rparr>"
    unfolding exampleCopy_def using assms by (rule example_feed)
  then show ?thesis
    unfolding examplePoll_def scanGlobalMarket_def
    by (simp del: fold.simps split: sum.splits)
qed

lemma example_poll1:
  "examplePoll 1700000010000 \<lparr>tradeWindow = [], alertCooldowns = Map.empty\<rparr>
     = ([], \<lparr>tradeWindow = [exampleCopy], alertCooldowns = Map.empty\<rparr>)"
  by (subst example_poll_unfold)
     (simp_all add: copy_fresh copies_call analyzeMarket_partition copies_aggregates rule_simps)

lemma example_poll2:
  "examplePoll 1700000025000 \<lparr>tradeWindow = [exampleCopy], alertCooldowns = Map.empty\<rparr>
     = ([], \<lparr>tradeWindow = [exampleCopy, exampleCopy], alertCooldowns = Map.empty\<rparr>)"
  by (subst example_poll_unfold)
     (simp_all add: copy_fresh copies_call analyzeMarket_partition copies_aggregates rule_simps)

lemma example_poll3:
  "examplePoll 1700000040000 \<lparr>tradeWindow = [exampleCopy, exampleCopy], alertCooldowns = Map.empty\<rparr>
     = ([SendMessage ''42'' (formatAlert exampleBuiltins
            \<lparr>sig_type = ''VOLUME_SURGE'', sig_marketName = ''Will it rain?'',
             sig_outcome = ''Yes'', totalVol = Fin 18000, uniqueWallets = 1,
             ratio = Fin 18000, sig_marketId = ''501''\<rparr>)],
        \<lparr>tradeWindow = [exampleCopy, exampleCopy, exampleCopy],
         alertCooldowns = [''501'' \<mapsto> 1700000040000]\<rparr>)"
  by (subst example_poll_unfold)
     (simp_all add: copy_fresh copies_call analyzeMarket_partition copies_aggregates rule_simps)

text \<open>
  One upstream buy worth 6000 dollars, found again by three polls 15 seconds apart, is in
  the window three times; the third poll sees a buy volume of 18000 dollars from one
  wallet and sends a \<open>VOLUME_SURGE\<close> alert.
\<close>

theorem addTrade_no_deduplication_witness:
  "toTrade exampleBuiltins exampleMarket exampleActivity = exampleCopy
   \<and> amountUSD exampleCopy = Fin 6000
   \<and> examplePoll 1700000010000 constructor
       = ([], \<lparr>tradeWindow = [exampleCopy], alertCooldowns = Map.empty\<rparr>)
   \<and> examplePoll 1700000025000 \<lparr>tradeWindow = [exampleCopy], alertCooldowns = Map.empty\<rparr>
       = ([], \<lparr>tradeWindow = [exampleCopy, exampleCopy], alertCooldowns = Map.empty\<rparr>)
   \<and> count_list [exampleCopy, exampleCopy] exampleCopy = 2
   \<and> buyVolOf ''501'' [exampleCopy, exampleCopy] = Fin 12000
   \<and> examplePoll 1700000040000
         \<lparr>tradeWindow = [exampleCopy, exampleCopy], alertCooldowns = Map.empty\<rparr>
       = ([SendMessage ''42'' (formatAlert exampleBuiltins
            \<lparr>sig_type = ''VOLUME_SURGE'', sig_marketName = ''Will it rain?'',
             sig_outcome = ''Yes'', totalVol = Fin 18000, uniqueWallets = 1,
             ratio = Fin 18000, sig_marketId = ''501''\<rparr>)],
          \<lparr>tradeWindow = [exampleCopy, exampleCopy, exampleCopy],
           alertCooldowns = [''501'' \<mapsto> 1700000040000]\<rparr>)"
proof -
  have f: "js_gt (timestamp exampleCopy) (num_of_int (1700000025000 - 60000))"
    by (simp add: copy_fresh)
  have a: "addTrade 1700000025000 exampleCopy
             \<lparr>tradeWindow = [exampleCopy], alertCooldowns = Map.empty\<rparr>
           = \<lparr>tradeWindow = [exampleCopy, exampleCopy], alertCooldowns = Map.empty\<rparr>"
    using f by (simp add: addTrade_def)
  have "count_list [exampleCopy, exampleCopy] exampleCopy = 2"
    using addTrade_no_deduplication [OF f,
        of "\<lparr>tradeWindow = [exampleCopy], alertCooldowns = Map.empty\<rparr>"]
    by (simp add: a)
  moreover have "buyVolOf ''501'' [exampleCopy, exampleCopy] = Fin 12000"
    using addTrade_no_deduplication [OF f,
        of "\<lparr>tradeWindow = [exampleCopy], alertCooldowns = Map.empty\<rparr>"]
    by (simp add: copies_aggregates)
  ultimately show ?thesis
    by (simp add: example_poll1 example_poll2 example_poll3 constructor_def
        example_toTrade exampleCopy_def [symmetric])
       (simp add: exampleCopy_def exampleTrade_def)
qed

section \<open>Records without a size\<close>

lemma sumUSD_NaN_last: "sumUSD (ts @ [t]) = NaN" if "amountUSD t = NaN"
  using that by (cases "sumUSD ts") (simp_all add: sumUSD_snoc)

lemma NaN_volume_silent:
  assumes "checkSignals now d = Inr (sigs, d')" and "buyVolOf m (tradeWindow d) = NaN"
  shows "filter (\<lambda>s. sig_marketId s = m) sigs = []"
proof (cases "m \<in> marketId ` set (tradeWindow d)")
  case True
  have "analyzeMarket now (alertCooldowns d) (m, partitionOf m (tradeWindow d)) = None"
    using assms(2) by (simp add: analyzeMarket_partition alertTypeOf_def js_gt_def)
  then show ?thesis
    by (simp add: signals_for_market [OF assms(1) True])
next
  case False
  then show ?thesis
    using signal_ids [OF assms(1)] by (auto simp: filter_empty_conv)
qed

text \<open>
  Claim C5 at a record whose \<open>size\<close> is missing. The scanner computes
  \<open>parseFloat(t.size) * parseFloat(t.price)\<close>, which is \<open>NaN\<close>: it does not raise, and it
  does not treat the field as zero. Once such a buy is fed while inside the window, the
  buy volume of its market is \<open>NaN\<close>, and a market whose buy volume is \<open>NaN\<close> gets no
  signal. The watchlist tracker, on the same record, computes
  \<open>(trade.size || 0) * (trade.price || 0)\<close>, with zero for the missing size.
\<close>

theorem missing_size_gives_NaN:
  "amountUSD (toTrade B mk (a\<lparr>act_size := JUndefined\<rparr>)) = NaN
   \<and> (act_side a = Some ''BUY''
        \<and> js_gt (dateGetTime B (act_timestamp a)) (num_of_int (now - 60000)) \<longrightarrow>
        buyVolOf (market_id mk)
          (tradeWindow (feedBrain B mk [(now, Some (a\<lparr>act_size := JUndefined\<rparr>))] d)) = NaN)
   \<and> (checkSignals now' d' = Inr (sigs, d'') \<and> buyVolOf m (tradeWindow d') = NaN \<longrightarrow>
        filter (\<lambda>s. sig_marketId s = m) sigs = [])
   \<and> walletAmount B (a\<lparr>act_size := JUndefined\<rparr>)
       = js_mul (Fin 0) (toNumber B (js_or (act_price a) (JNum (Fin 0))))"
proof -
  let ?a = "a\<lparr>act_size := JUndefined\<rparr>"
  have n: "amountUSD (toTrade B mk ?a) = NaN"
    by (simp add: toTrade_def)
  have f: "act_side a = Some ''BUY''
        \<and> js_gt (dateGetTime B (act_timestamp a)) (num_of_int (now - 60000)) \<longrightarrow>
        buyVolOf (market_id mk) (tradeWindow (feedBrain B mk [(now, Some ?a)] d)) = NaN"
  proof
    assume h: "act_side a = Some ''BUY''
        \<and> js_gt (dateGetTime B (act_timestamp a)) (num_of_int (now - 60000))"
    then have "js_gt (timestamp (toTrade B mk ?a)) (num_of_int (now - 60000))"
      by (simp add: toTrade_def)
    from addTrade_fresh [OF this, of d] h
    have "tradeWindow (feedBrain B mk [(now, Some ?a)] d)
            = filter (\<lambda>x. js_gt (timestamp x) (num_of_int (now - 60000))) (tradeWindow d)
              @ [toTrade B mk ?a]"
      by simp
    moreover have "marketId (toTrade B mk ?a) = market_id mk" "side (toTrade B mk ?a) = ''Buy''"
      by (simp_all add: toTrade_def)
    ultimately show "buyVolOf (market_id mk)
        (tradeWindow (feedBrain B mk [(now, Some ?a)] d)) = NaN"
      using n by (simp add: buyVolOf_def sumUSD_NaN_last)
  qed
  have s: "checkSignals now' d' = Inr (sigs, d'') \<and> buyVolOf m (tradeWindow d') = NaN \<longrightarrow>
        filter (\<lambda>s. sig_marketId s = m) sigs = []"
    using NaN_volume_silent by blast
  have w: "walletAmount B ?a = js_mul (Fin 0) (toNumber B (js_or (act_price a) (JNum (Fin 0))))"
    by (simp add: walletAmount_def js_or_def)
  from n f s w show ?thesis by blast
qed

lemma example_trades:
  "toTrade exampleBuiltins exampleMarket exampleMalformed = exampleNaNTrade"
  "toTrade exampleBuiltins exampleMarket exampleBig = exampleTrade ''501'' ''0xb'' ''Buy'' 20000"
  "act_side exampleMalformed = Some ''BUY''"
  "act_side exampleBig = Some ''BUY''"
  by (simp_all add: toTrade_def exampleMarket_def exampleActivity_def exampleMalformed_def
      exampleBig_def exampleNaNTrade_def exampleTrade_def orString_def orOpt_def truthyStr_def)

lemma example_feeds:
  "feedBrain exampleBuiltins exampleMarket
     [(1700000010000, Some exampleMalformed), (1700000010000, Some exampleBig)] constructor
   = \<lparr>tradeWindow = [exampleNaNTrade, exampleTrade ''501'' ''0xb'' ''Buy'' 20000],
      alertCooldowns = Map.empty\<rparr>"
  "feedBrain exampleBuiltins exampleMarket [(1700000010000, Some exampleBig)] constructor
   = \<lparr>tradeWindow = [exampleTrade ''501'' ''0xb'' ''Buy'' 20000], alertCooldowns = Map.empty\<rparr>"
  by (simp_all add: example_trades constructor_def addTrade_def)
     (simp_all add: exampleNaNTrade_def exampleTrade_def js_gt_def num_of_int_def)

lemma nan_window_aggregates:
  "buyVolOf ''501'' [exampleNaNTrade, exampleTrade ''501'' ''0xb'' ''Buy'' 20000] = NaN"
  "buyVolOf ''501'' [exampleTrade ''501'' ''0xb'' ''Buy'' 20000] = Fin 20000"
  "sellVolOf ''501'' [exampleNaNTrade, exampleTrade ''501'' ''0xb'' ''Buy'' 20000] = Fin 0"
  "sellVolOf ''501'' [exampleTrade ''501'' ''0xb'' ''Buy'' 20000] = Fin 0"
  "uniqueBuyersOf ''501'' [exampleTrade ''501'' ''0xb'' ''Buy'' 20000] = 1"
  "marketName (meta (partitionOf ''501'' [exampleTrade ''501'' ''0xb'' ''Buy'' 20000]))
     = ''Will it rain?''"
  "outcome (meta (partitionOf ''501'' [exampleTrade ''501'' ''0xb'' ''Buy'' 20000])) = ''Yes''"
  by (simp_all add: buyVolOf_def sellVolOf_def uniqueBuyersOf_def sumUSD_def partitionOf_def
      exampleNaNTrade_def exampleTrade_def List.card_set del: set_map)

lemma nan_window_calls:
  "checkSignals 1700000010000
     \<lparr>tradeWindow = [exampleNaNTrade, exampleTrade ''501'' ''0xb'' ''Buy'' 20000],
      alertCooldowns = Map.empty\<rparr>
   = Inr ([], \<lparr>tradeWindow = [exampleNaNTrade, exampleTrade ''501'' ''0xb'' ''Buy'' 20000],
               alertCooldowns = Map.empty\<rparr>)"
  "checkSignals 1700000010000
     \<lparr>tradeWindow = [exampleTrade ''501'' ''0xb'' ''Buy'' 20000], alertCooldowns = Map.empty\<rparr>
   = Inr ([\<lparr>sig_type = ''VOLUME_SURGE'', sig_marketName = ''Will it rain?'',
             sig_outcome = ''Yes'', totalVol = Fin 20000, uniqueWallets = 1,
             ratio = Fin 20000, sig_marketId = ''501''\<rparr>],
          \<lparr>tradeWindow = [exampleTrade ''501'' ''0xb'' ''Buy'' 20000],
           alertCooldowns = [''501'' \<mapsto> 1700000010000]\<rparr>)"
proof -
  have m: "marketId exampleNaNTrade = ''501''"
    "marketId (exampleTrade ''501'' ''0xb'' ''Buy'' 20000) = ''501''"
    by (simp_all add: exampleNaNTrade_def exampleTrade_def)
  show "checkSignals 1700000010000
     \<lparr>tradeWindow = [exampleNaNTrade, exampleTrade ''501'' ''0xb'' ''Buy'' 20000],
      alertCooldowns = Map.empty\<rparr>
   = Inr ([], \<lparr>tradeWindow = [exampleNaNTrade, exampleTrade ''501'' ''0xb'' ''Buy'' 20000],
               alertCooldowns = Map.empty\<rparr>)"
    by (subst checkSignals_one_market [where m = "''501''"])
       (simp_all add: m market_501 analyzeMarket_partition nan_window_aggregates rule_simps)
  show "checkSignals 1700000010000
     \<lparr>tradeWindow = [exampleTrade ''501'' ''0xb'' ''Buy'' 20000], alertCooldowns = Map.empty\<rparr>
   = Inr ([\<lparr>sig_type = ''VOLUME_SURGE'', sig_marketName = ''Will it rain?'',
             sig_outcome = ''Yes'', totalVol = Fin 20000, uniqueWallets = 1,
             ratio = Fin 20000, sig_marketId = ''501''\<rparr>],
          \<lparr>tradeWindow = [exampleTrade ''501'' ''0xb'' ''Buy'' 20000],
           alertCooldowns = [''501'' \<mapsto> 1700000010000]\<rparr>)"
    by (subst checkSignals_one_market [where m = "''501''"])
       (simp_all add: m market_501 analyzeMarket_partition nan_window_aggregates rule_simps)
qed

text \<open>
  Fed together with a buy of 20000 dollars, the record without a size makes the buy volume
  of market 501 \<open>NaN\<close> and the detector silent; the buy of 20000 dollars alone raises a
  \<open>VOLUME_SURGE\<close>.
\<close>

theorem missing_size_gives_NaN_witness:
  "amountUSD (toTrade exampleBuiltins exampleMarket exampleMalformed) = NaN
   \<and> feedBrain exampleBuiltins exampleMarket
        [(1700000010000, Some exampleMalformed), (1700000010000, Some exampleBig)] constructor
      = \<lparr>tradeWindow = [exampleNaNTrade, exampleTrade ''501'' ''0xb'' ''Buy'' 20000],
         alertCooldowns = Map.empty\<rparr>
   \<and> buyVolOf ''501'' [exampleNaNTrade, exampleTrade ''501'' ''0xb'' ''Buy'' 20000] = NaN
   \<and> checkSignals 1700000010000
        \<lparr>tradeWindow = [exampleNaNTrade, exampleTrade ''501'' ''0xb'' ''Buy'' 20000],
         alertCooldowns = Map.empty\<rparr>
      = Inr ([], \<lparr>tradeWindow = [exampleNaNTrade, exampleTrade ''501'' ''0xb'' ''Buy'' 20000],
                 alertCooldowns = Map.empty\<rparr>)
   \<and> checkSignals 1700000010000
        (feedBrain exampleBuiltins exampleMarket [(1700000010000, Some exampleBig)] constructor)
      = Inr ([\<lparr>sig_type = ''VOLUME_SURGE'', sig_marketName = ''Will it rain?'',
               sig_outcome = ''Yes'', totalVol = Fin 20000, uniqueWallets = 1,
               ratio = Fin 20000, sig_marketId = ''501''\<rparr>],
             \<lparr>tradeWindow = [exampleTrade ''501'' ''0xb'' ''Buy'' 20000],
              alertCooldowns = [''501'' \<mapsto> 1700000010000]\<rparr>)
   \<and> walletAmount exampleBuiltins exampleMalformed = Fin 0"
proof -
  have e: "exampleMalformed = exampleActivity\<lparr>act_size := JUndefined\<rparr>"
    by (simp add: exampleMalformed_def)
  note t = missing_size_gives_NaN [of exampleBuiltins exampleMarket exampleActivity
      1700000010000 constructor 1700000010000
      "\<lparr>tradeWindow = [exampleNaNTrade, exampleTrade ''501'' ''0xb'' ''Buy'' 20000],
        alertCooldowns = Map.empty\<rparr>"
      "[]"
      "\<lparr>tradeWindow = [exampleNaNTrade, exampleTrade ''501'' ''0xb'' ''Buy'' 20000],
        alertCooldowns = Map.empty\<rparr>"
      "''501''", folded e]
  have "amountUSD (toTrade exampleBuiltins exampleMarket exampleMalformed) = NaN"
    using t by simp
  moreover have "walletAmount exampleBuiltins exampleMalformed = Fin 0"
    using t by (simp add: exampleActivity_def js_or_def)
  ultimately show ?thesis
    unfolding example_feeds
    by (simp add: nan_window_aggregates nan_window_calls)
qed

section \<open>The watchlist tracker\<close>

text \<open>
  Claim C6. For a watched wallet whose request returns a list with a first record: the
  fingerprint of the record is its \<open>id\<close>, or its \<open>transactionHash\<close> when the \<open>id\<close> is absent
  or empty. With no stored fingerprint the only action is the store of the current one,
  and no message is sent. With a stored fingerprint equal to the current one nothing is
  done. With a stored fingerprint that differs and a record of type \<open>TRADE\<close>, exactly one
  message is sent and then the new fingerprint is stored. (A record of another type is
  stored without a message. A refusal of the store by the database is logged.)
\<close>

theorem wallet_fingerprint_rule:
  assumes "res = DataList (Some trade # rest)"
  shows "(let cur = orOpt (act_id trade) (act_transactionHash trade);
              evs = fst (scanWallet B chatId (w, res, dbOk))
          in (truthyStr (act_id trade) \<longrightarrow> cur = act_id trade)
           \<and> (\<not> truthyStr (act_id trade) \<longrightarrow> cur = act_transactionHash trade)
           \<and> (\<not> truthyStr (lastHash w) \<longrightarrow>
                evs = [UpdateOne chatId (address w) cur] @ scanLog w dbOk)
           \<and> (truthyStr (lastHash w) \<and> lastHash w = cur \<longrightarrow> evs = [])
           \<and> (truthyStr (lastHash w) \<and> lastHash w \<noteq> cur \<and> act_type trade = Some ''TRADE'' \<longrightarrow>
                evs = [SendMessage chatId (walletMessage B w trade),
                       UpdateOne chatId (address w) cur] @ scanLog w dbOk)
           \<and> (truthyStr (lastHash w) \<and> lastHash w \<noteq> cur \<and> act_type trade \<noteq> Some ''TRADE'' \<longrightarrow>
                evs = [UpdateOne chatId (address w) cur] @ scanLog w dbOk))"
  using assms
  by (auto simp: scanWallet_def tryWallet_def orOpt_def scanLog_def Let_def)

text \<open>
  First sync by \<open>id\<close>, first sync by \<open>transactionHash\<close> when the \<open>id\<close> is absent, an
  unchanged fingerprint, and a changed fingerprint on a \<open>TRADE\<close>.
\<close>

theorem wallet_fingerprint_rule_witness:
  "scanWallet exampleBuiltins ''42''
     (exampleWallet None, DataList [Some exampleActivity], True)
     = ([UpdateOne ''42'' ''0xa'' (Some ''tx1'')], False)
   \<and> scanWallet exampleBuiltins ''42''
     (exampleWallet None, DataList [Some exampleHashOnly], True)
     = ([UpdateOne ''42'' ''0xa'' (Some ''0xabc'')], False)
   \<and> scanWallet exampleBuiltins ''42''
     (exampleWallet (Some ''tx1''), DataList [Some exampleActivity], True)
     = ([], False)
   \<and> scanWallet exampleBuiltins ''42''
     (exampleWallet (Some ''tx0''), DataList [Some exampleActivity], True)
     = ([SendMessage ''42'' (walletMessage exampleBuiltins (exampleWallet (Some ''tx0''))
                             exampleActivity),
         UpdateOne ''42'' ''0xa'' (Some ''tx1'')], True)"
proof -
  have f: "act_id exampleActivity = Some ''tx1''" "act_type exampleActivity = Some ''TRADE''"
    "act_id exampleHashOnly = None" "act_transactionHash exampleHashOnly = Some ''0xabc''"
    by (simp_all add: exampleActivity_def exampleHashOnly_def)
  have w: "lastHash (exampleWallet h) = h" "address (exampleWallet h) = ''0xa''" for h
    by (simp_all add: exampleWallet_def)
  have "fst (scanWallet exampleBuiltins ''42''
          (exampleWallet None, DataList [Some exampleActivity], True))
        = [UpdateOne ''42'' ''0xa'' (Some ''tx1'')]"
    using wallet_fingerprint_rule [of "DataList [Some exampleActivity]" exampleActivity "[]"
        exampleBuiltins "''42''" "exampleWallet None" True]
    by (simp add: f w truthyStr_def orOpt_def scanLog_def Let_def)
  moreover have "fst (scanWallet exampleBuiltins ''42''
          (exampleWallet None, DataList [Some exampleHashOnly], True))
        = [UpdateOne ''42'' ''0xa'' (Some ''0xabc'')]"
    using wallet_fingerprint_rule [of "DataList [Some exampleHashOnly]" exampleHashOnly "[]"
        exampleBuiltins "''42''" "exampleWallet None" True]
    by (simp add: f w truthyStr_def orOpt_def scanLog_def Let_def)
  moreover have "fst (scanWallet exampleBuiltins ''42''
          (exampleWallet (Some ''tx1''), DataList [Some exampleActivity], True)) = []"
    using wallet_fingerprint_rule [of "DataList [Some exampleActivity]" exampleActivity "[]"
        exampleBuiltins "''42''" "exampleWallet (Some ''tx1'')" True]
    by (simp add: f w truthyStr_def orOpt_def scanLog_def Let_def)
  moreover have "fst (scanWallet exampleBuiltins ''42''
          (exampleWallet (Some ''tx0''), DataList [Some exampleActivity], True))
        = [SendMessage ''42'' (walletMessage exampleBuiltins (exampleWallet (Some ''tx0''))
                             exampleActivity),
           UpdateOne ''42'' ''0xa'' (Some ''tx1'')]"
    using wallet_fingerprint_rule [of "DataList [Some exampleActivity]" exampleActivity "[]"
        exampleBuiltins "''42''" "exampleWallet (Some ''tx0'')" True]
    by (simp add: f w truthyStr_def orOpt_def scanLog_def Let_def)
  moreover have "snd (scanWallet exampleBuiltins ''42'' (exampleWallet h, DataList [Some a], True))
        = (truthyStr h \<and> h \<noteq> orOpt (act_id a) (act_transactionHash a)
           \<and> act_type a = Some ''TRADE'')" for h a
    by (simp add: scanWallet_def tryWallet_def w Let_def)
  ultimately show ?thesis
    by (simp add: prod_eq_iff f truthyStr_def orOpt_def)
qed

lemma scanLoop_events:
  "scanLoop B chatId xs u =
     (concat (map (\<lambda>x. fst (scanWallet B chatId x)) xs),
      u \<or> (\<exists>x\<in>set xs. snd (scanWallet B chatId x)))"
proof (induction xs arbitrary: u)
  case Nil
  show ?case by simp
next
  case (Cons x xs)
  show ?case
    by (cases "scanWallet B chatId x") (auto simp: Cons.IH)
qed

text \<open>
  Claim C7. The events of a pass over the watchlist are the events of each wallet, one
  wallet after the other, whatever happened to the wallets before it: a wallet in the
  middle of the list contributes its own events between those of the wallets before and
  after. A request that fails, a body that is \<open>null\<close> and a first record that is \<open>null\<close>
  are each caught and logged, and so is every other raise of the \<open>try\<close> body. The pass
  itself returns its events: no failure of a wallet leaves the loop.
\<close>

theorem wallet_failures_isolated:
  "fst (scanLoop B chatId (xs @ (w, res, dbOk) # ys) u)
     = fst (scanLoop B chatId xs u) @ fst (scanWallet B chatId (w, res, dbOk))
       @ fst (scanLoop B chatId ys u)
   \<and> fst (scanLoop B chatId xs u) = concat (map (\<lambda>x. fst (scanWallet B chatId x)) xs)
   \<and> (res = RequestFailed \<or> res = DataNull \<or> (\<exists>rest. res = DataList (None # rest)) \<longrightarrow>
        scanWallet B chatId (w, res, dbOk)
          = ([ConsoleError (''Error scanning wallet '' @ name w)], False))
   \<and> (raised (tryWallet B chatId w res dbOk) \<longrightarrow>
        fst (scanWallet B chatId (w, res, dbOk))
          = issued (tryWallet B chatId w res dbOk)
            @ [ConsoleError (''Error scanning wallet '' @ name w)])
   \<and> scanSpecificWallets B chatId isManual (Some ((w, res, dbOk) # ys))
     = concat (map (\<lambda>x. fst (scanWallet B chatId x)) ((w, res, dbOk) # ys))
       @ (if isManual \<and> \<not> (\<exists>x\<in>set ((w, res, dbOk) # ys). snd (scanWallet B chatId x))
          then [SendMessage chatId noNewTrades] else [])"
proof -
  have a: "fst (scanLoop B chatId (xs @ (w, res, dbOk) # ys) u)
     = fst (scanLoop B chatId xs u) @ fst (scanWallet B chatId (w, res, dbOk))
       @ fst (scanLoop B chatId ys u)"
    by (simp add: scanLoop_events)
  have b: "fst (scanLoop B chatId xs u) = concat (map (\<lambda>x. fst (scanWallet B chatId x)) xs)"
    by (simp add: scanLoop_events)
  have c: "res = RequestFailed \<or> res = DataNull \<or> (\<exists>rest. res = DataList (None # rest)) \<longrightarrow>
        scanWallet B chatId (w, res, dbOk)
          = ([ConsoleError (''Error scanning wallet '' @ name w)], False)"
    by (auto simp: scanWallet_def tryWallet_def)
  have d: "raised (tryWallet B chatId w res dbOk) \<longrightarrow>
        fst (scanWallet B chatId (w, res, dbOk))
          = issued (tryWallet B chatId w res dbOk)
            @ [ConsoleError (''Error scanning wallet '' @ name w)]"
    by (simp add: scanWallet_def Let_def)
  have e: "scanSpecificWallets B chatId isManual (Some ((w, res, dbOk) # ys))
     = concat (map (\<lambda>x. fst (scanWallet B chatId x)) ((w, res, dbOk) # ys))
       @ (if isManual \<and> \<not> (\<exists>x\<in>set ((w, res, dbOk) # ys). snd (scanWallet B chatId x))
          then [SendMessage chatId noNewTrades] else [])"
    unfolding scanSpecificWallets_def scanLoop_events by simp
  from a b c d e show ?thesis by blast
qed

lemma example_scans:
  "scanWallet exampleBuiltins ''42''
     (exampleWallet (Some ''tx0''), DataList [Some exampleActivity], True)
   = ([SendMessage ''42'' (walletMessage exampleBuiltins (exampleWallet (Some ''tx0''))
                             exampleActivity),
       UpdateOne ''42'' ''0xa'' (Some ''tx1'')], True)"
  "scanWallet exampleBuiltins ''42'' (exampleWallet (Some ''tx0''), RequestFailed, True)
   = ([ConsoleError ''Error scanning wallet Whale''], False)"
  "scanWallet exampleBuiltins ''42'' (exampleWallet (Some ''tx0''), DataList [None], True)
   = ([ConsoleError ''Error scanning wallet Whale''], False)"
  "scanWallet exampleBuiltins ''42'' (exampleWallet None, DataList [Some exampleActivity], False)
   = ([UpdateOne ''42'' ''0xa'' (Some ''tx1''), ConsoleError ''Error scanning wallet Whale''],
      False)"
  "scanWallet exampleBuiltins ''42'' (exampleWallet None, DataList [Some exampleActivity], True)
   = ([UpdateOne ''42'' ''0xa'' (Some ''tx1'')], False)"
  by (simp_all add: scanWallet_def tryWallet_def exampleWallet_def truthyStr_def orOpt_def
      Let_def)
     (simp_all add: exampleActivity_def)

text \<open>
  On the example watchlist the second, third and fourth entries fail, and the fifth is
  still synchronised.
\<close>

theorem wallet_failures_isolated_witness:
  "scanSpecificWallets exampleBuiltins ''42'' False (Some exampleWatchlist)
   = [SendMessage ''42'' (walletMessage exampleBuiltins (exampleWallet (Some ''tx0''))
                            exampleActivity),
      UpdateOne ''42'' ''0xa'' (Some ''tx1''),
      ConsoleError ''Error scanning wallet Whale'',
      ConsoleError ''Error scanning wallet Whale'',
      UpdateOne ''42'' ''0xa'' (Some ''tx1''),
      ConsoleError ''Error scanning wallet Whale'',
      UpdateOne ''42'' ''0xa'' (Some ''tx1'')]"
  using wallet_failures_isolated [of exampleBuiltins "''42''" "[]"
      "exampleWallet (Some ''tx0'')" "DataList [Some exampleActivity]" True
      "tl exampleWatchlist" False False]
  by (simp add: exampleWatchlist_def example_scans)

section \<open>The alert text\<close>

declare digits.simps [simp del]
declare toFixed.simps [simp del]
declare toLocaleString0.simps [simp del]





lemma digits_small: "n < 10 \<Longrightarrow> digits n = [digitChar n]"
  by (subst digits.simps) simp

lemma digits_step: "10 \<le> n \<Longrightarrow> digits n = digits (n div 10) @ [digitChar (n mod 10)]"
  by (subst digits.simps) simp
















lemma example_digits:
  "digits 15000 = ''15000''"
  "digits 3 = ''3''"
  "fixedDigits (Suc 0) 30 = ''3.0''"
  by (simp_all add: fixedDigits_def digits_step digits_small digitChar_def)


text \<open>
  The ratio of 305 against 100 is the double that \<open>3.05\<close> denotes. It is below \<open>3.05\<close>, so
  \<open>toFixed(1)\<close> renders it as \<open>3.0\<close>.
\<close>

lemma quotient_305_100:
  "js_div (Fin 305) (Fin 100) = Fin (3433994715870003 / 1125899906842624)"
  using roundDouble_nearest [of 1 "305 / 100" 6867989431740006] by simp

lemma quotient_305_100_rendering:
  "toFixed B (Suc 0) (js_div (Fin 305) (Fin 100)) = ''3.0''"
  by (simp add: quotient_305_100 toFixed.simps roundHalfUp_def floor_numeral_div example_digits
      del: js_div.simps)




end
